theory Spec2Isabelle
  imports Complex_Main "HOL-Library.List_Lexorder" "HOL-Library.Option_ord" "HOL-Library.Product_Lexorder"
begin

section \<open>Python strings\<close>

text \<open>
  A Python \<open>str\<close> is a sequence of Unicode code points, so it is modelled as a list of
  natural numbers, one per code point. Romaji literals of the source are written as
  Isabelle strings and converted with \<open>asc\<close>; kana literals are written by code point.
\<close>

type_synonym uchar = nat
type_synonym ustr = "uchar list"

definition asc :: "string \<Rightarrow> ustr" where
  "asc s = map of_char s"

text \<open>\<open>str.isspace\<close> for one code point: the Unicode white space that \<open>str.strip()\<close> removes.\<close>

definition py_isspace :: "uchar \<Rightarrow> bool" where
  "py_isspace c \<longleftrightarrow>
     (0x09 \<le> c \<and> c \<le> 0x0D) \<or> (0x1C \<le> c \<and> c \<le> 0x20) \<or> c = 0x85 \<or> c = 0xA0 \<or>
     c = 0x1680 \<or> (0x2000 \<le> c \<and> c \<le> 0x200A) \<or> c = 0x2028 \<or> c = 0x2029 \<or>
     c = 0x202F \<or> c = 0x205F \<or> c = 0x3000"

definition py_strip :: "ustr \<Rightarrow> ustr" where
  "py_strip s = rev (dropWhile py_isspace (rev (dropWhile py_isspace s)))"

text \<open>
  \<open>str.lower()\<close>. On a string of ASCII code points it lowers the letters \<open>A\<close> to \<open>Z\<close> and
  leaves the rest. The case mapping of the other code points is a table of the Unicode
  database, not of the source, so what \<open>lower\<close> returns on a string that holds one of them
  is a parameter, \<open>ulower\<close>, of every function that lowers a string.
\<close>

definition py_lower_char :: "uchar \<Rightarrow> uchar" where
  "py_lower_char c = (if 0x41 \<le> c \<and> c \<le> 0x5A then c + 0x20 else c)"

definition py_lower :: "(ustr \<Rightarrow> ustr) \<Rightarrow> ustr \<Rightarrow> ustr" where
  "py_lower ulower s = (if list_all (\<lambda>c. c < 0x80) s then map py_lower_char s else ulower s)"

definition starts_with :: "ustr \<Rightarrow> ustr \<Rightarrow> bool" where
  "starts_with a s \<longleftrightarrow> take (length a) s = a"

text \<open>
  \<open>s.replace(a, b)\<close> for a non-empty pattern \<open>a\<close>: the occurrences of \<open>a\<close> are replaced
  from the left, without overlap. (Every pattern of the source is non-empty; an empty one
  leaves the string as it is here.)
\<close>

function py_replace :: "ustr \<Rightarrow> ustr \<Rightarrow> ustr \<Rightarrow> ustr" where
  "py_replace a b [] = []"
| "py_replace a b (c # cs) =
     (if a \<noteq> [] \<and> starts_with a (c # cs)
      then b @ py_replace a b (drop (length a) (c # cs))
      else c # py_replace a b cs)"
  by pat_completeness auto
termination
  by (relation "measure (\<lambda>(a, b, s). length s)") auto

text \<open>The value of \<open>s or ""\<close> for a field that may be \<open>None\<close>.\<close>

definition or_empty :: "ustr option \<Rightarrow> ustr" where
  "or_empty s = (case s of None \<Rightarrow> [] | Some t \<Rightarrow> t)"

definition norm :: "ustr option \<Rightarrow> ustr" where
  "norm s = py_strip (or_empty s)"

section \<open>Classification and script conversion\<close>

definition has_kana :: "ustr \<Rightarrow> bool" where
  "has_kana s \<longleftrightarrow> (\<exists>code \<in> set s. (0x3040 \<le> code \<and> code \<le> 0x309F) \<or> (0x30A0 \<le> code \<and> code \<le> 0x30FF))"

definition has_kanji :: "ustr \<Rightarrow> bool" where
  "has_kanji s \<longleftrightarrow> (\<exists>code \<in> set s. 0x4E00 \<le> code \<and> code \<le> 0x9FFF)"

definition kata_to_hira :: "ustr \<Rightarrow> ustr" where
  "kata_to_hira s = map (\<lambda>code. if 0x30A1 \<le> code \<and> code \<le> 0x30F6 then code - 0x60 else code) s"

definition hira_to_kata :: "ustr \<Rightarrow> ustr" where
  "hira_to_kata s =
     map (\<lambda>code. if 0x3041 \<le> code \<and> code \<le> 0x3096 then code + 0x60
                 else if code = 0x3094 then 0x30F4
                 else if code = 0x3095 then 0x30F5
                 else if code = 0x3096 then 0x30F6
                 else code) s"

section \<open>Kana to romaji\<close>

text \<open>The two tables of \<open>kana_to_romaji\<close>, in the order of the source.\<close>

definition k2r_digraph :: "(ustr \<times> ustr) list" where
  "k2r_digraph =
  [([0x304D, 0x3083], asc ''kya''), ([0x304D, 0x3085], asc ''kyu''), ([0x304D, 0x3087], asc ''kyo''),
   ([0x304E, 0x3083], asc ''gya''), ([0x304E, 0x3085], asc ''gyu''), ([0x304E, 0x3087], asc ''gyo''),
   ([0x3057, 0x3083], asc ''sha''), ([0x3057, 0x3085], asc ''shu''), ([0x3057, 0x3087], asc ''sho''),
   ([0x3058, 0x3083], asc ''ja''), ([0x3058, 0x3085], asc ''ju''), ([0x3058, 0x3087], asc ''jo''),
   ([0x3061, 0x3083], asc ''cha''), ([0x3061, 0x3085], asc ''chu''), ([0x3061, 0x3087], asc ''cho''),
   ([0x306B, 0x3083], asc ''nya''), ([0x306B, 0x3085], asc ''nyu''), ([0x306B, 0x3087], asc ''nyo''),
   ([0x3072, 0x3083], asc ''hya''), ([0x3072, 0x3085], asc ''hyu''), ([0x3072, 0x3087], asc ''hyo''),
   ([0x3073, 0x3083], asc ''bya''), ([0x3073, 0x3085], asc ''byu''), ([0x3073, 0x3087], asc ''byo''),
   ([0x3074, 0x3083], asc ''pya''), ([0x3074, 0x3085], asc ''pyu''), ([0x3074, 0x3087], asc ''pyo''),
   ([0x307F, 0x3083], asc ''mya''), ([0x307F, 0x3085], asc ''myu''), ([0x307F, 0x3087], asc ''myo''),
   ([0x308A, 0x3083], asc ''rya''), ([0x308A, 0x3085], asc ''ryu''), ([0x308A, 0x3087], asc ''ryo''),
   ([0x3094, 0x3041], asc ''va''), ([0x3094, 0x3043], asc ''vi''), ([0x3094, 0x3047], asc ''ve''),
   ([0x3094, 0x3049], asc ''vo'')]"

definition k2r_mono :: "(uchar \<times> ustr) list" where
  "k2r_mono =
  [(0x3042, asc ''a''), (0x3044, asc ''i''), (0x3046, asc ''u''), (0x3048, asc ''e''),
   (0x304A, asc ''o''), (0x304B, asc ''ka''), (0x304D, asc ''ki''), (0x304F, asc ''ku''),
   (0x3051, asc ''ke''), (0x3053, asc ''ko''), (0x304C, asc ''ga''), (0x304E, asc ''gi''),
   (0x3050, asc ''gu''), (0x3052, asc ''ge''), (0x3054, asc ''go''), (0x3055, asc ''sa''),
   (0x3057, asc ''shi''), (0x3059, asc ''su''), (0x305B, asc ''se''), (0x305D, asc ''so''),
   (0x3056, asc ''za''), (0x3058, asc ''ji''), (0x305A, asc ''zu''), (0x305C, asc ''ze''),
   (0x305E, asc ''zo''), (0x305F, asc ''ta''), (0x3061, asc ''chi''), (0x3064, asc ''tsu''),
   (0x3066, asc ''te''), (0x3068, asc ''to''), (0x3060, asc ''da''), (0x3062, asc ''ji''),
   (0x3065, asc ''zu''), (0x3067, asc ''de''), (0x3069, asc ''do''), (0x306A, asc ''na''),
   (0x306B, asc ''ni''), (0x306C, asc ''nu''), (0x306D, asc ''ne''), (0x306E, asc ''no''),
   (0x306F, asc ''ha''), (0x3072, asc ''hi''), (0x3075, asc ''fu''), (0x3078, asc ''he''),
   (0x307B, asc ''ho''), (0x3070, asc ''ba''), (0x3073, asc ''bi''), (0x3076, asc ''bu''),
   (0x3079, asc ''be''), (0x307C, asc ''bo''), (0x3071, asc ''pa''), (0x3074, asc ''pi''),
   (0x3077, asc ''pu''), (0x307A, asc ''pe''), (0x307D, asc ''po''), (0x307E, asc ''ma''),
   (0x307F, asc ''mi''), (0x3080, asc ''mu''), (0x3081, asc ''me''), (0x3082, asc ''mo''),
   (0x3084, asc ''ya''), (0x3086, asc ''yu''), (0x3088, asc ''yo''), (0x3089, asc ''ra''),
   (0x308A, asc ''ri''), (0x308B, asc ''ru''), (0x308C, asc ''re''), (0x308D, asc ''ro''),
   (0x308F, asc ''wa''), (0x3092, asc ''o''), (0x3093, asc ''n''), (0x3041, asc ''a''),
   (0x3043, asc ''i''), (0x3045, asc ''u''), (0x3047, asc ''e''), (0x3049, asc ''o''),
   (0x3094, asc ''vu''), (0x308E, asc ''wa''), (0x3095, asc ''ka''), (0x3096, asc ''ka''),
   (0x30FC, asc ''-''), (0x3063, [])]"

definition SOKUON :: uchar where
  "SOKUON = 0x3063"

definition consonants :: ustr where
  "consonants = asc ''bcdfghjklmnpqrstvwxyz''"

definition vowels :: ustr where
  "vowels = asc ''aeiou''"

text \<open>The doubling of the first consonant after a small tsu.\<close>

definition geminate :: "bool \<Rightarrow> ustr \<Rightarrow> ustr" where
  "geminate sokuon token =
     (case token of
        [] \<Rightarrow> token
      | t0 # _ \<Rightarrow> if sokuon \<and> t0 \<in> set consonants then t0 # token else token)"

text \<open>
  The first loop of \<open>kana_to_romaji\<close>, as a recursion on the characters still to read:
  the flag is the variable \<open>sokuon\<close>, the result the list \<open>res\<close> of tokens.
\<close>

fun k2r_tokens :: "bool \<Rightarrow> ustr \<Rightarrow> ustr list" where
  "k2r_tokens sokuon [] = []"
| "k2r_tokens sokuon [ch] =
     (if ch = SOKUON then []
      else [geminate sokuon (case map_of k2r_mono ch of Some t \<Rightarrow> t | None \<Rightarrow> [ch])])"
| "k2r_tokens sokuon (ch # c2 # rest) =
     (if ch = SOKUON then k2r_tokens True (c2 # rest)
      else case map_of k2r_digraph [ch, c2] of
             Some t \<Rightarrow> geminate sokuon t # k2r_tokens False rest
           | None \<Rightarrow>
               geminate sokuon (case map_of k2r_mono ch of Some t \<Rightarrow> t | None \<Rightarrow> [ch])
                 # k2r_tokens False (c2 # rest))"

text \<open>
  The second loop: a token \<open>-\<close> is replaced by the last vowel seen (\<open>last_vowel\<close>, empty
  at the start), every other token is copied and its last vowel remembered.
\<close>

fun k2r_join :: "ustr \<Rightarrow> ustr list \<Rightarrow> ustr" where
  "k2r_join last_vowel [] = []"
| "k2r_join last_vowel (token # res) =
     (if token = asc ''-'' then last_vowel @ k2r_join last_vowel res
      else token @ k2r_join (case find (\<lambda>c. c \<in> set vowels) (rev token) of
                               Some c \<Rightarrow> [c] | None \<Rightarrow> last_vowel) res)"

definition kana_to_romaji :: "ustr \<Rightarrow> ustr" where
  "kana_to_romaji kana =
     (if kana = [] then []
      else k2r_join [] (k2r_tokens False (kata_to_hira kana)))"

section \<open>Romaji to kana\<close>

definition xmap :: "(ustr \<times> ustr) list" where
  "xmap =
  [(asc ''xa'', [0x3041]), (asc ''xi'', [0x3043]), (asc ''xu'', [0x3045]),
   (asc ''xe'', [0x3047]), (asc ''xo'', [0x3049]), (asc ''xya'', [0x3083]),
   (asc ''xyu'', [0x3085]), (asc ''xyo'', [0x3087]), (asc ''xtsu'', [0x3063]),
   (asc ''xwa'', [0x308E])]"

definition r2k_digraph :: "(ustr \<times> ustr) list" where
  "r2k_digraph =
  [(asc ''kya'', [0x304D, 0x3083]), (asc ''kyu'', [0x304D, 0x3085]), (asc ''kyo'', [0x304D, 0x3087]),
   (asc ''gya'', [0x304E, 0x3083]), (asc ''gyu'', [0x304E, 0x3085]), (asc ''gyo'', [0x304E, 0x3087]),
   (asc ''sha'', [0x3057, 0x3083]), (asc ''shu'', [0x3057, 0x3085]), (asc ''sho'', [0x3057, 0x3087]),
   (asc ''ja'', [0x3058, 0x3083]), (asc ''ju'', [0x3058, 0x3085]), (asc ''jo'', [0x3058, 0x3087]),
   (asc ''cha'', [0x3061, 0x3083]), (asc ''chu'', [0x3061, 0x3085]), (asc ''cho'', [0x3061, 0x3087]),
   (asc ''nya'', [0x306B, 0x3083]), (asc ''nyu'', [0x306B, 0x3085]), (asc ''nyo'', [0x306B, 0x3087]),
   (asc ''hya'', [0x3072, 0x3083]), (asc ''hyu'', [0x3072, 0x3085]), (asc ''hyo'', [0x3072, 0x3087]),
   (asc ''bya'', [0x3073, 0x3083]), (asc ''byu'', [0x3073, 0x3085]), (asc ''byo'', [0x3073, 0x3087]),
   (asc ''pya'', [0x3074, 0x3083]), (asc ''pyu'', [0x3074, 0x3085]), (asc ''pyo'', [0x3074, 0x3087]),
   (asc ''mya'', [0x307F, 0x3083]), (asc ''myu'', [0x307F, 0x3085]), (asc ''myo'', [0x307F, 0x3087]),
   (asc ''rya'', [0x308A, 0x3083]), (asc ''ryu'', [0x308A, 0x3085]), (asc ''ryo'', [0x308A, 0x3087])]"

definition r2k_mono :: "(ustr \<times> ustr) list" where
  "r2k_mono =
  [(asc ''a'', [0x3042]), (asc ''i'', [0x3044]), (asc ''u'', [0x3046]), (asc ''e'', [0x3048]),
   (asc ''o'', [0x304A]), (asc ''ka'', [0x304B]), (asc ''ki'', [0x304D]), (asc ''ku'', [0x304F]),
   (asc ''ke'', [0x3051]), (asc ''ko'', [0x3053]), (asc ''ga'', [0x304C]), (asc ''gi'', [0x304E]),
   (asc ''gu'', [0x3050]), (asc ''ge'', [0x3052]), (asc ''go'', [0x3054]), (asc ''sa'', [0x3055]),
   (asc ''shi'', [0x3057]), (asc ''su'', [0x3059]), (asc ''se'', [0x305B]), (asc ''so'', [0x305D]),
   (asc ''za'', [0x3056]), (asc ''ji'', [0x3058]), (asc ''zu'', [0x305A]), (asc ''ze'', [0x305C]),
   (asc ''zo'', [0x305E]), (asc ''ta'', [0x305F]), (asc ''chi'', [0x3061]), (asc ''tsu'', [0x3064]),
   (asc ''te'', [0x3066]), (asc ''to'', [0x3068]), (asc ''da'', [0x3060]), (asc ''di'', [0x3062]),
   (asc ''du'', [0x3065]), (asc ''de'', [0x3067]), (asc ''do'', [0x3069]), (asc ''na'', [0x306A]),
   (asc ''ni'', [0x306B]), (asc ''nu'', [0x306C]), (asc ''ne'', [0x306D]), (asc ''no'', [0x306E]),
   (asc ''ha'', [0x306F]), (asc ''hi'', [0x3072]), (asc ''fu'', [0x3075]), (asc ''he'', [0x3078]),
   (asc ''ho'', [0x307B]), (asc ''ba'', [0x3070]), (asc ''bi'', [0x3073]), (asc ''bu'', [0x3076]),
   (asc ''be'', [0x3079]), (asc ''bo'', [0x307C]), (asc ''pa'', [0x3071]), (asc ''pi'', [0x3074]),
   (asc ''pu'', [0x3077]), (asc ''pe'', [0x307A]), (asc ''po'', [0x307D]), (asc ''ma'', [0x307E]),
   (asc ''mi'', [0x307F]), (asc ''mu'', [0x3080]), (asc ''me'', [0x3081]), (asc ''mo'', [0x3082]),
   (asc ''ya'', [0x3084]), (asc ''yu'', [0x3086]), (asc ''yo'', [0x3088]), (asc ''ra'', [0x3089]),
   (asc ''ri'', [0x308A]), (asc ''ru'', [0x308B]), (asc ''re'', [0x308C]), (asc ''ro'', [0x308D]),
   (asc ''wa'', [0x308F]), (asc ''wo'', [0x3092])]"

definition merge_reps :: "(ustr \<times> ustr) list" where
  "merge_reps =
  [(asc ''kixya'', asc ''kya''), (asc ''kixyu'', asc ''kyu''), (asc ''kixyo'', asc ''kyo''),
   (asc ''gixya'', asc ''gya''), (asc ''gixyu'', asc ''gyu''), (asc ''gixyo'', asc ''gyo''),
   (asc ''sixya'', asc ''sha''), (asc ''sixyu'', asc ''shu''), (asc ''sixyo'', asc ''sho''),
   (asc ''shixya'', asc ''sha''), (asc ''shixyu'', asc ''shu''), (asc ''shixyo'', asc ''sho''),
   (asc ''jixya'', asc ''ja''), (asc ''jixyu'', asc ''ju''), (asc ''jixyo'', asc ''jo''),
   (asc ''chixya'', asc ''cha''), (asc ''chixyu'', asc ''chu''), (asc ''chixyo'', asc ''cho''),
   (asc ''nixya'', asc ''nya''), (asc ''nixyu'', asc ''nyu''), (asc ''nixyo'', asc ''nyo''),
   (asc ''hixya'', asc ''hya''), (asc ''hixyu'', asc ''hyu''), (asc ''hixyo'', asc ''hyo''),
   (asc ''bixya'', asc ''bya''), (asc ''bixyu'', asc ''byu''), (asc ''bixyo'', asc ''byo''),
   (asc ''pixya'', asc ''pya''), (asc ''pixyu'', asc ''pyu''), (asc ''pixyo'', asc ''pyo''),
   (asc ''mixya'', asc ''mya''), (asc ''mixyu'', asc ''myu''), (asc ''mixyo'', asc ''myo''),
   (asc ''rixya'', asc ''rya''), (asc ''rixyu'', asc ''ryu''), (asc ''rixyo'', asc ''ryo'')]"

definition merge_split_x :: "ustr \<Rightarrow> ustr" where
  "merge_split_x d = fold (\<lambda>(a, b) d. py_replace a b d) merge_reps d"

definition in_table :: "ustr \<Rightarrow> (ustr \<times> ustr) list \<Rightarrow> bool" where
  "in_table k t \<longleftrightarrow> map_of t k \<noteq> None"

text \<open>
  The parsing loop of \<open>romaji_to_kana\<close>, as a recursion on the text still to read: \<open>_peek(n)\<close>
  is \<open>take n\<close>, \<open>i += n\<close> is \<open>drop n\<close>, \<open>return None\<close> is \<open>None\<close>, and the kana appended to
  \<open>out\<close> are put in front of what the rest of the loop produces.
\<close>

definition emit :: "ustr option \<Rightarrow> ustr option \<Rightarrow> ustr option" where
  "emit kana rest_out =
     (case kana of None \<Rightarrow> None
      | Some k \<Rightarrow> (case rest_out of None \<Rightarrow> None | Some out \<Rightarrow> Some (k @ out)))"

function r2k_loop :: "ustr \<Rightarrow> ustr option" where
  "r2k_loop [] = Some []"
| "r2k_loop (c # cs) =
     (let s = c # cs in
      if take 1 s = asc ''x'' then
        (if in_table (take 4 s) xmap then emit (map_of xmap (take 4 s)) (r2k_loop (drop 4 s))
         else if in_table (take 3 s) xmap then emit (map_of xmap (take 3 s)) (r2k_loop (drop 3 s))
         else if in_table (take 2 s) xmap then emit (map_of xmap (take 2 s)) (r2k_loop (drop 2 s))
         else None)
      else if in_table (take 3 s) r2k_digraph then
        emit (map_of r2k_digraph (take 3 s)) (r2k_loop (drop 3 s))
      else if in_table (take 3 s) r2k_mono then
        emit (map_of r2k_mono (take 3 s)) (r2k_loop (drop 3 s))
      else if in_table (take 2 s) r2k_mono then
        emit (map_of r2k_mono (take 2 s)) (r2k_loop (drop 2 s))
      else if in_table (take 1 s) r2k_mono then
        emit (map_of r2k_mono (take 1 s)) (r2k_loop (drop 1 s))
      else if take 1 s = asc ''n'' then
        (let nxt = take 1 cs in
         if nxt = [] \<or> (\<not> (\<exists>v \<in> set vowels. nxt = [v]) \<and> nxt \<noteq> asc ''y'')
         then emit (Some [0x3093]) (r2k_loop (drop 1 s))
         else None)
      else None)"
  by pat_completeness auto
termination
  by (relation "measure length") auto

definition romaji_to_kana :: "(ustr \<Rightarrow> ustr) \<Rightarrow> ustr \<Rightarrow> (ustr \<times> ustr) option" where
  "romaji_to_kana ulower roma =
     (if roma = [] then None
      else case r2k_loop (merge_split_x (py_lower ulower (py_strip roma))) of
             None \<Rightarrow> None
           | Some hira \<Rightarrow> Some (hira, hira_to_kata hira))"

text \<open>
  The loop of the relaxed variant: \<open>relaxed_scan s n\<close> tries the prefixes of length
  \<open>n - 1\<close> down to \<open>0\<close>, as \<open>range(len(s) - 1, -1, -1)\<close> does from \<open>n = len(s)\<close>.
\<close>

fun relaxed_scan :: "(ustr \<Rightarrow> ustr) \<Rightarrow> ustr \<Rightarrow> nat \<Rightarrow> ustr \<times> ustr" where
  "relaxed_scan ulower s 0 = ([], [])"
| "relaxed_scan ulower s (Suc j) =
     (case romaji_to_kana ulower (take j s) of
        Some r \<Rightarrow> r
      | None \<Rightarrow> relaxed_scan ulower s j)"

definition romaji_to_kana_relaxed :: "(ustr \<Rightarrow> ustr) \<Rightarrow> ustr \<Rightarrow> ustr \<times> ustr" where
  "romaji_to_kana_relaxed ulower s0 =
     (let s = py_lower ulower (py_strip s0) in
      if s = [] then ([], [])
      else case romaji_to_kana ulower s of
             Some res \<Rightarrow> res
           | None \<Rightarrow> relaxed_scan ulower s (length s))"

section \<open>Card rows and the card store\<close>

text \<open>
  A row of the table \<open>cards\<close>, with the columns the functions below read or write, under
  the index the source uses: \<open>row[0]\<close> id, \<open>row[2]\<close> unit, \<open>row[3]\<close> term, \<open>row[4]\<close>
  meaning, \<open>row[6]\<close> last_review, \<open>row[7]\<close> interval, \<open>row[8]\<close> repetition, \<open>row[9]\<close> ef,
  \<open>row[10]\<close> due_date, \<open>row[11]\<close> jp_kanji, \<open>row[12]\<close> jp_kana. A text column that is
  \<open>NULL\<close> (or, for the last two, missing from a short row) is \<open>None\<close>. The type \<open>'f\<close> is
  the type of Python's floats, see below.
\<close>

record 'f card_row =
  row_id :: int
  row_unit :: "ustr option"
  row_term :: "ustr option"
  row_meaning :: "ustr option"
  row_last_review :: "ustr option"
  row_interval :: int
  row_repetition :: int
  row_ef :: 'f
  row_due_date :: "ustr option"
  row_jp_kanji :: "ustr option"
  row_jp_kana :: "ustr option"

text \<open>The argument \<open>unit\<close> of the queries: \<open>None\<close>, one name, or a collection of names.\<close>

datatype unit_arg = UnitNone | UnitStr ustr | UnitMany "ustr option list"

definition ALL_UNITS :: ustr where
  "ALL_UNITS = [0x6240, 0x6709, 0x5355, 0x5143]"

text \<open>
  The three queries, on the table as a list of rows. \<open>ORDER BY unit, id\<close> is a stable sort
  on the pair; \<open>NULL\<close> sorts first and text compares by code point, as the orders on
  \<open>option\<close> and on lists do.
\<close>

definition select_all :: "'f card_row list \<Rightarrow> 'f card_row list" where
  "select_all conn = sort_key (\<lambda>r. (row_unit r, row_id r)) conn"

definition select_units :: "'f card_row list \<Rightarrow> ustr list \<Rightarrow> 'f card_row list" where
  "select_units conn units =
     sort_key (\<lambda>r. (row_unit r, row_id r))
       (filter (\<lambda>r. case row_unit r of None \<Rightarrow> False | Some u \<Rightarrow> u \<in> set units) conn)"

definition select_unit :: "'f card_row list \<Rightarrow> ustr \<Rightarrow> 'f card_row list" where
  "select_unit conn unit = sort_key row_id (filter (\<lambda>r. row_unit r = Some unit) conn)"

text \<open>The loop that cleans a collection of unit names; \<open>seen\<close> holds the same names as \<open>units\<close>.\<close>

fun collect_units :: "ustr list \<Rightarrow> ustr option list \<Rightarrow> ustr list" where
  "collect_units units [] = units"
| "collect_units units (u # us) =
     (let name = py_strip (or_empty u) in
      if name = [] \<or> name = ALL_UNITS then collect_units units us
      else if name \<in> set units then collect_units units us
      else collect_units (units @ [name]) us)"

definition list_cards_by_unit :: "'f card_row list \<Rightarrow> unit_arg \<Rightarrow> 'f card_row list" where
  "list_cards_by_unit conn unit =
     (case unit of
        UnitNone \<Rightarrow> select_all conn
      | UnitStr u \<Rightarrow>
          if u = [] \<or> u = ALL_UNITS then select_all conn else select_unit conn u
      | UnitMany us \<Rightarrow>
          (let units = collect_units [] us in
           if units = [] then select_all conn else select_units conn units))"

definition list_due_cards :: "'f card_row list \<Rightarrow> unit_arg \<Rightarrow> 'f card_row list" where
  "list_due_cards conn unit = list_cards_by_unit conn unit"

definition update_card_review ::
  "'f card_row list \<Rightarrow> int \<Rightarrow> int \<Rightarrow> int \<Rightarrow> 'f \<Rightarrow> ustr option \<Rightarrow> ustr option \<Rightarrow> 'f card_row list" where
  "update_card_review conn card_id interval repetition ef last_review due_date =
     map (\<lambda>r. if row_id r = card_id
               then r\<lparr>row_interval := interval, row_repetition := repetition, row_ef := ef,
                      row_last_review := last_review, row_due_date := due_date\<rparr>
               else r) conn"

section \<open>The scheduler\<close>

text \<open>
  Python's floats are not fixed to one arithmetic here: \<open>sm2_update\<close> is written over a
  record of the float operations it uses, so that a theorem about it holds for every
  arithmetic, IEEE doubles included. \<open>fround\<close> is \<open>int(round(x))\<close>, which raises on an
  infinity or a NaN: that is \<open>None\<close>. \<open>fge\<close> is \<open>\<ge>\<close>; the code does not use it, the
  statements about the easiness floor do.
\<close>

record 'f float_ops =
  fadd :: "'f \<Rightarrow> 'f \<Rightarrow> 'f"
  fsub :: "'f \<Rightarrow> 'f \<Rightarrow> 'f"
  fmul :: "'f \<Rightarrow> 'f \<Rightarrow> 'f"
  flt :: "'f \<Rightarrow> 'f \<Rightarrow> bool"
  fge :: "'f \<Rightarrow> 'f \<Rightarrow> bool"
  ffloat :: "int \<Rightarrow> 'f"
  fround :: "'f \<Rightarrow> int option"
  f0_1 :: 'f
  f0_08 :: 'f
  f0_02 :: 'f
  f1_3 :: 'f

text \<open>The easiness update and its floor, the last three lines of \<open>sm2_update\<close>.\<close>

definition ef_update :: "'f float_ops \<Rightarrow> 'f \<Rightarrow> int \<Rightarrow> 'f" where
  "ef_update F ef q =
     fadd F ef (fsub F (f0_1 F)
       (fmul F (ffloat F (5 - q)) (fadd F (f0_08 F) (fmul F (ffloat F (5 - q)) (f0_02 F)))))"

definition sm2_update :: "'f float_ops \<Rightarrow> 'f card_row \<Rightarrow> int \<Rightarrow> (int \<times> int \<times> 'f) option" where
  "sm2_update F card_row quality =
     (let interval = row_interval card_row;
          repetition = row_repetition card_row;
          ef = row_ef card_row;
          q = quality;
          sched =
            (if q < 3 then Some (1, 0)
             else let repetition = repetition + 1 in
               if repetition = 1 then Some (1, repetition)
               else if repetition = 2 then Some (6, repetition)
               else (case fround F (fmul F (ffloat F interval) ef) of
                       None \<Rightarrow> None
                     | Some n \<Rightarrow> Some (max 1 n, repetition)))
      in case sched of
           None \<Rightarrow> None
         | Some (interval, repetition) \<Rightarrow>
             (let ef = ef_update F ef q;
                  ef = (if flt F ef (f1_3 F) then f1_3 F else ef)
              in Some (interval, repetition, ef)))"

text \<open>
  An arithmetic to run the scheduler on: exact rationals, with \<open>round\<close> to the nearest
  integer and ties to the even one. It is not the arithmetic of Python's floats, which
  round every result to a double: it serves the runs on sample data, and the
  statements about floats are made for every arithmetic \<open>F\<close>.
\<close>

definition round_half_even :: "rat \<Rightarrow> int" where
  "round_half_even x =
     (let f = \<lfloor>x\<rfloor>; d = x - of_int f in
      if d < 1 / 2 then f else if 1 / 2 < d then f + 1 else if even f then f else f + 1)"

definition exact_ops :: "rat float_ops" where
  "exact_ops = \<lparr>fadd = (+), fsub = (-), fmul = (*), flt = (<), fge = (\<ge>),
                 ffloat = of_int, fround = (\<lambda>x. Some (round_half_even x)),
                 f0_1 = 1 / 10, f0_08 = 8 / 100, f0_02 = 2 / 100, f1_3 = 13 / 10\<rparr>"

section \<open>The review session\<close>

definition get_jp_kanji :: "'f card_row \<Rightarrow> ustr" where
  "get_jp_kanji row =
     (case row_jp_kanji row of
        None \<Rightarrow> []
      | Some v \<Rightarrow> if v = [] then [] else py_strip (or_empty (Some v)))"

definition get_jp_kana :: "'f card_row \<Rightarrow> ustr" where
  "get_jp_kana row =
     (case row_jp_kana row of
        None \<Rightarrow> []
      | Some v \<Rightarrow> if v = [] then [] else py_strip (or_empty (Some v)))"

definition pick_kana :: "'f card_row \<Rightarrow> ustr" where
  "pick_kana row =
     (let jp_kana = get_jp_kana row in
      if has_kana jp_kana then py_strip jp_kana
      else let term = norm (row_term row) in
           if has_kana term then term else [])"

text \<open>
  A row of the table \<open>reviews\<close>. The call sites pass neither \<open>before\<close> nor \<open>after\<close>, so the
  eight snapshot columns are always \<open>NULL\<close> and are left out.
\<close>

record review =
  rv_card_id :: int
  rv_ts :: ustr
  rv_mode :: int
  rv_quality :: int
  rv_elapsed_ms :: "int option"

text \<open>
  What a handler reads from the clock: the time stamp of \<open>datetime.now()\<close> and the
  milliseconds since the card was shown (\<open>None\<close> when \<open>_ts_start\<close> is zero).
\<close>

record clock =
  now_iso :: ustr
  elapsed :: "int option"

text \<open>
  The state of a \<open>StudyWindow\<close>: the two tables behind \<open>self.db\<close>, the attributes of the
  window the handlers read, the enabled flags of its widgets, the text of the input
  line, and what the answer block shows (\<open>Some True\<close> for the tick). \<open>sm2_calls\<close> is not
  an attribute of the source: it records each call of \<open>sm2_update\<close> with the card and
  the quality, so that the number of calls can be stated.
\<close>

record 'f study =
  db :: "'f card_row list"
  reviews :: "review list"
  sm2_calls :: "(int \<times> int) list"
  queue :: "('f card_row \<times> int) list"
  idx :: int
  current :: "('f card_row \<times> int) option"
  session_total :: int
  session_correct :: int
  showing_mean :: bool
  rated :: bool
  closed :: bool
  answer_block :: "bool option"
  continue_enabled :: bool
  rating_enabled :: bool
  fail_enabled :: bool
  answer_box :: bool
  input_enabled :: bool
  confirm_enabled :: bool
  input_text :: ustr

datatype error = RoundError

definition insert_review ::
  "review list \<Rightarrow> int \<Rightarrow> ustr \<Rightarrow> int \<Rightarrow> int \<Rightarrow> int option \<Rightarrow> review list" where
  "insert_review tbl card_id now mode quality elapsed_ms =
     tbl @ [\<lparr>rv_card_id = card_id, rv_ts = now, rv_mode = mode, rv_quality = quality,
             rv_elapsed_ms = elapsed_ms\<rparr>]"

definition record_review :: "'f study \<Rightarrow> clock \<Rightarrow> int \<Rightarrow> 'f study" where
  "record_review s clk quality =
     (case current s of
        None \<Rightarrow> s
      | Some (row, mode) \<Rightarrow>
          if row_id row = 0 then s
          else s\<lparr>reviews := insert_review (reviews s) (row_id row) (now_iso clk) mode quality
                                (elapsed clk)\<rparr>)"

definition submit_rating :: "'f study \<Rightarrow> clock \<Rightarrow> int \<Rightarrow> 'f study" where
  "submit_rating s clk quality =
     (if rated s then s
      else
        let s = (if quality = 4 \<or> quality = 5
                 then s\<lparr>session_correct := session_correct s + 1\<rparr> else s);
            s = record_review s clk quality;
            s = s\<lparr>session_total := session_total s + 1\<rparr>
        in s\<lparr>rated := True, continue_enabled := True\<rparr>)"

text \<open>
  The dictionary is the collaborator behind \<open>_LOCAL_DICT.get_full\<close>: its entries come from
  a file, so the lookup is a parameter. An exception of the lookup is caught by the
  handler and counts as \<open>None\<close>.
\<close>

type_synonym dictionary = "ustr \<Rightarrow> (ustr \<times> ustr \<times> ustr) option"

definition answers_of :: "'f card_row \<Rightarrow> ustr list" where
  "answers_of row =
     (let kana = pick_kana row;
          kanji = get_jp_kanji row;
          term = norm (row_term row)
      in (if kana \<noteq> [] then [norm (Some kana)] else []) @
         (if kanji \<noteq> [] then [norm (Some kanji)] else []) @
         (if term \<noteq> [] \<and> (has_kana term \<or> has_kanji term) then [term] else []))"

definition dict_fallback :: "dictionary \<Rightarrow> 'f card_row \<Rightarrow> ustr \<Rightarrow> bool" where
  "dict_fallback lookup row user_input =
     (let std_kana = norm (Some (pick_kana row));
          std_kana =
            (if std_kana = [] then
               (let t = py_strip (or_empty (row_term row)) in
                if t \<noteq> [] \<and> has_kana t then norm (Some t) else [])
             else std_kana)
      in if std_kana \<noteq> [] then
           (case lookup user_input of
              None \<Rightarrow> False
            | Some (e_term, e_kana, e_meaning) \<Rightarrow> norm (Some e_kana) = std_kana)
         else False)"

definition check_answer ::
  "'f float_ops \<Rightarrow> dictionary \<Rightarrow> 'f study \<Rightarrow> clock \<Rightarrow> error + 'f study" where
  "check_answer F lookup s clk =
     (case current s of
        None \<Rightarrow> Inr s
      | Some (row, mode) \<Rightarrow>
          if mode \<noteq> 1 then Inr s
          else
            let user_input = norm (Some (input_text s));
                correct = (user_input \<noteq> [] \<and> norm (Some user_input) \<in> set (answers_of row));
                s = (if \<not> rated s
                     then s\<lparr>session_total := session_total s + 1,
                            session_correct := (if correct then session_correct s + 1
                                                else session_correct s)\<rparr>
                     else s);
                s = s\<lparr>continue_enabled := True, rated := True\<rparr>;
                quality = (if correct then 4 else 1);
                s = record_review s clk quality;
                correct = (if \<not> correct \<and> has_kanji user_input
                           then dict_fallback lookup row user_input else correct);
                s = s\<lparr>answer_block := Some correct, showing_mean := True\<rparr>;
                q = (if correct then 4 else 1);
                s = s\<lparr>sm2_calls := sm2_calls s @ [(row_id row, q)]\<rparr>
            in case sm2_update F row q of
                 None \<Rightarrow> Inl RoundError
               | Some (interval, repetition, ef) \<Rightarrow>
                   (let s = s\<lparr>db := update_card_review (db s) (row_id row) interval repetition
                                       ef (Some (now_iso clk)) None\<rparr>;
                        s = (if answer_box s
                             then s\<lparr>input_enabled := False, confirm_enabled := False\<rparr> else s)
                    in Inr (s\<lparr>fail_enabled := False\<rparr>)))"

definition mark_fail :: "'f float_ops \<Rightarrow> 'f study \<Rightarrow> clock \<Rightarrow> error + 'f study" where
  "mark_fail F s clk =
     (case current s of
        None \<Rightarrow> Inr s
      | Some (row, mode) \<Rightarrow>
          if mode \<noteq> 1 then Inr s
          else
            let s = s\<lparr>answer_block := Some False, showing_mean := True\<rparr>;
                s = s\<lparr>sm2_calls := sm2_calls s @ [(row_id row, 1)]\<rparr>
            in case sm2_update F row 1 of
                 None \<Rightarrow> Inl RoundError
               | Some (interval, repetition, ef) \<Rightarrow>
                   (let s = s\<lparr>db := update_card_review (db s) (row_id row) interval repetition
                                       ef (Some (now_iso clk)) None\<rparr>;
                        s = s\<lparr>session_total := session_total s + 1\<rparr>;
                        s = s\<lparr>continue_enabled := True\<rparr>;
                        s = (if answer_box s
                             then s\<lparr>input_enabled := False, confirm_enabled := False\<rparr> else s);
                        s = s\<lparr>fail_enabled := False, rated := True\<rparr>
                    in Inr (record_review s clk 1)))"

definition show_card :: "'f study \<Rightarrow> 'f card_row \<times> int \<Rightarrow> 'f study" where
  "show_card s entry =
     (let mode = snd entry;
          s = s\<lparr>current := Some entry, showing_mean := False, answer_block := None,
                 continue_enabled := False, rated := False, rating_enabled := False,
                 fail_enabled := (mode = 1)\<rparr>
      in if mode = 1
         then s\<lparr>answer_box := True, input_text := [], input_enabled := True,
                 confirm_enabled := True\<rparr>
         else s)"

definition toggle_meaning :: "'f study \<Rightarrow> 'f study" where
  "toggle_meaning s =
     (case current s of
        None \<Rightarrow> s
      | Some (row, mode) \<Rightarrow>
          if showing_mean s then
            (let s = s\<lparr>showing_mean := False\<rparr> in
             if mode = 0
             then s\<lparr>rating_enabled := (\<not> rated s), continue_enabled := False\<rparr>
             else (let s = (if answer_box s
                            then s\<lparr>input_enabled := True, confirm_enabled := True\<rparr> else s)
                   in s\<lparr>continue_enabled := False\<rparr>))
          else
            (let s = (if mode = 0
                      then s\<lparr>rating_enabled := (\<not> rated s), continue_enabled := False\<rparr>
                      else (let s = s\<lparr>continue_enabled := True\<rparr>;
                                s = (if answer_box s
                                     then s\<lparr>input_enabled := False, confirm_enabled := False\<rparr>
                                     else s)
                            in s\<lparr>fail_enabled := False\<rparr>))
             in s\<lparr>showing_mean := True\<rparr>))"

definition next_card :: "'f study \<Rightarrow> 'f study" where
  "next_card s =
     (let s = s\<lparr>rated := False, showing_mean := False, continue_enabled := False\<rparr>;
          s = (case current s of
                 Some (row, mode) \<Rightarrow> if mode = 0 then s\<lparr>rating_enabled := False\<rparr> else s
               | None \<Rightarrow> s);
          s = s\<lparr>idx := idx s + 1\<rparr>
      in if idx s \<ge> int (length (queue s)) then s\<lparr>closed := True\<rparr>
         else show_card s (queue s ! nat (idx s)))"

text \<open>
  What the user can do to the window. A click reaches its handler only while the button
  is enabled, and typing changes the input line only while it is enabled; the button
  that shows or hides the answer is always enabled.
\<close>

datatype event = Toggle | Rate int | Type ustr | Confirm | GiveUp | Continue

definition ui_step ::
  "'f float_ops \<Rightarrow> dictionary \<Rightarrow> clock \<Rightarrow> 'f study \<Rightarrow> event \<Rightarrow> error + 'f study" where
  "ui_step F lookup clk s e =
     (case e of
        Toggle \<Rightarrow> Inr (toggle_meaning s)
      | Rate q \<Rightarrow> Inr (if rating_enabled s then submit_rating s clk q else s)
      | Type t \<Rightarrow> Inr (if input_enabled s then s\<lparr>input_text := t\<rparr> else s)
      | Confirm \<Rightarrow> if confirm_enabled s then check_answer F lookup s clk else Inr s
      | GiveUp \<Rightarrow> if fail_enabled s then mark_fail F s clk else Inr s
      | Continue \<Rightarrow> Inr (if continue_enabled s then next_card s else s))"

fun ui_run ::
  "'f float_ops \<Rightarrow> dictionary \<Rightarrow> clock \<Rightarrow> 'f study \<Rightarrow> event list \<Rightarrow> error + 'f study" where
  "ui_run F lookup clk s [] = Inr s"
| "ui_run F lookup clk s (e # es) =
     (case ui_step F lookup clk s e of Inl err \<Rightarrow> Inl err | Inr s' \<Rightarrow> ui_run F lookup clk s' es)"

section \<open>Sample data\<close>

text \<open>A card to run the functions on: kana \<open>neko\<close>, kanji \<open>cat\<close>, reviewed twice.\<close>

definition demo_row :: "rat card_row" where
  "demo_row = \<lparr>row_id = 7, row_unit = Some (asc ''u1''), row_term = Some [0x306D, 0x3053],
     row_meaning = Some (asc ''cat''), row_last_review = None, row_interval = 6,
     row_repetition = 2, row_ef = 5 / 2, row_due_date = None, row_jp_kanji = Some [0x732B],
     row_jp_kana = Some [0x306D, 0x3053]\<rparr>"

text \<open>Overwriting the due date of a row, to compare tables that differ in due dates only.\<close>

definition set_due :: "('f card_row \<Rightarrow> ustr option) \<Rightarrow> 'f card_row \<Rightarrow> 'f card_row" where
  "set_due d r = r\<lparr>row_due_date := d r\<rparr>"


section \<open>Sessions to run\<close>

text \<open>
  The attributes as \<open>__init__\<close> sets them, over a given table and queue, and a window
  that shows the first entry of a given queue. Such a window serves to run the handlers
  on a card of either direction; the queues that the program itself builds come from
  \<open>prepare_queue\<close> below, which gives every card direction 0.
\<close>

definition new_study :: "'f card_row list \<Rightarrow> ('f card_row \<times> int) list \<Rightarrow> 'f study" where
  "new_study conn q =
     \<lparr>db = conn, reviews = [], sm2_calls = [], queue = q, idx = 0, current = None,
      session_total = 0, session_correct = 0, showing_mean = False, rated = False,
      closed = False, answer_block = None, continue_enabled = False, rating_enabled = False,
      fail_enabled = False, answer_box = False, input_enabled = False,
      confirm_enabled = False, input_text = []\<rparr>"

definition open_study :: "'f card_row list \<Rightarrow> ('f card_row \<times> int) list \<Rightarrow> 'f study" where
  "open_study conn q =
     (case q of
        [] \<Rightarrow> (new_study conn q)\<lparr>idx := - 1, closed := True\<rparr>
      | entry # _ \<Rightarrow> show_card (new_study conn q) entry)"

text \<open>
  \<open>prepare_queue\<close>, in the three steps of the source. The unit filter is normalised, the
  cards are fetched (\<open>fetch_rows\<close>, with the two fall-backs), and the directions are dealt
  (\<open>deal_queue\<close>): \<open>num_mode0 = int(n * 1.0)\<close> is \<open>n\<close>
  itself (the product is the float of \<open>n\<close>, exact for every length a list can have), so
  \<open>num_mode1\<close> is 0. What \<open>random.shuffle\<close> does to the list of directions is the
  parameter \<open>shuffle\<close>. \<open>study_window\<close> is \<open>__init__\<close>: the attributes, the queue, and the
  window closed again when the queue is empty.
\<close>

definition normalize_unit :: "unit_arg \<Rightarrow> unit_arg" where
  "normalize_unit unit =
     (case unit of
        UnitStr u \<Rightarrow> if u = ALL_UNITS \<or> u = [] then UnitNone else UnitStr u
      | _ \<Rightarrow> unit)"

definition fetch_rows :: "'f card_row list \<Rightarrow> bool \<Rightarrow> unit_arg \<Rightarrow> 'f card_row list" where
  "fetch_rows conn include_all unit =
     (let rows = (if include_all then list_cards_by_unit conn unit
                  else (let rows = list_due_cards conn unit
                        in if rows = [] then list_cards_by_unit conn unit else rows))
      in if rows = [] \<and> unit \<noteq> UnitNone then list_cards_by_unit conn UnitNone else rows)"

definition deal_queue :: "(int list \<Rightarrow> int list) \<Rightarrow> 'f card_row list \<Rightarrow> 'f study \<Rightarrow> 'f study" where
  "deal_queue shuffle rows s =
     (let s = s\<lparr>queue := []\<rparr>;
          n = length rows
      in if n = 0 then s\<lparr>idx := - 1\<rparr>
         else
           (let num_mode0 = n;
                num_mode1 = n - num_mode0;
                modes = shuffle (replicate num_mode0 0 @ replicate num_mode1 1);
                s = s\<lparr>queue := zip rows modes\<rparr>;
                s = s\<lparr>idx := 0\<rparr>
            in case queue s of [] \<Rightarrow> s | entry # _ \<Rightarrow> show_card s entry))"

definition prepare_queue ::
  "(int list \<Rightarrow> int list) \<Rightarrow> bool \<Rightarrow> unit_arg \<Rightarrow> 'f study \<Rightarrow> 'f study" where
  "prepare_queue shuffle include_all unit_filter s =
     deal_queue shuffle (fetch_rows (db s) include_all (normalize_unit unit_filter)) s"

definition study_window ::
  "(int list \<Rightarrow> int list) \<Rightarrow> 'f card_row list \<Rightarrow> unit_arg \<Rightarrow> bool \<Rightarrow> 'f study" where
  "study_window shuffle conn unit_filter include_all =
     (let s = prepare_queue shuffle include_all unit_filter (new_study conn [])
      in if queue s = [] then s\<lparr>closed := True\<rparr> else s)"

text \<open>
  A dictionary with one entry, another spelling read \<open>neko\<close>, a clock, and a value for
  the parameter \<open>ulower\<close> of the parser: the examples lower ASCII text only and never
  reach it.
\<close>

definition ascii_lower :: "ustr \<Rightarrow> ustr" where
  "ascii_lower s = map py_lower_char s"

definition demo_dict :: dictionary where
  "demo_dict key =
     (if key = [0x5BDD, 0x5B50] then Some ([0x5BDD, 0x5B50], [0x306D, 0x3053], asc ''cat'')
      else None)"

definition demo_clock :: clock where
  "demo_clock = \<lparr>now_iso = asc ''2025-01-01T00:00:00+00:00'', elapsed = Some 1500\<rparr>"

text \<open>
  The value of \<open>correct\<close> at the end of \<open>check_answer\<close> for the trimmed input \<open>u\<close>: the
  test against the card's written forms, then the dictionary for an input with kanji.
\<close>

definition judged :: "dictionary \<Rightarrow> 'f card_row \<Rightarrow> ustr \<Rightarrow> bool" where
  "judged lookup row u =
     (let c0 = (u \<noteq> [] \<and> u \<in> set (answers_of row))
      in if \<not> c0 \<and> has_kanji u then dict_fallback lookup row u else c0)"

text \<open>
  A window on the sample card in each direction: 1 is recall, 0 is recognition. The
  second is the window that \<open>study_window\<close> opens on a table that holds the sample card; the
  first is a state for the recall handlers, which no queue of \<open>prepare_queue\<close> leads to.
\<close>

definition recall_state :: "rat study" where
  "recall_state = open_study [demo_row] [(demo_row, 1)]"

definition recog_state :: "rat study" where
  "recog_state = open_study [demo_row] [(demo_row, 0)]"

section \<open>Syllables that survive the round trip\<close>

text \<open>
  The syllables of the parser's own tables (the three-letter digraphs and the plain
  syllabary), as pairs of kana and romaji, that \<open>kana_to_romaji\<close> writes with the very
  key the parser reads them from.
\<close>

definition rt_syllables :: "(ustr \<times> ustr) list" where
  "rt_syllables =
     filter (\<lambda>(k, r). kana_to_romaji k = r)
       (map (\<lambda>(r, k). (k, r)) (filter (\<lambda>(r, k). length r = 3) r2k_digraph @ r2k_mono))"

text \<open>The syllabic n, which the parser reads by a rule of its own.\<close>

definition NASAL :: "ustr \<times> ustr" where
  "NASAL = ([0x3093], asc ''n'')"

text \<open>
  A word is a list of such syllables, with the syllabic n only at the end or before a
  syllable whose romaji starts with neither a vowel nor \<open>y\<close>.
\<close>

fun rt_word :: "(ustr \<times> ustr) list \<Rightarrow> bool" where
  "rt_word [] = True"
| "rt_word (u # us) =
     ((u \<in> set rt_syllables \<or>
       (u = NASAL \<and>
        (case us of
           [] \<Rightarrow> True
         | (k, r) # _ \<Rightarrow> (case r of [] \<Rightarrow> True | c # _ \<Rightarrow> c \<notin> set vowels \<and> c \<noteq> 0x79)))) \<and>
      rt_word us)"

text \<open>
  Checks run on the tables below: a romaji key is a run of consonants closed by its only
  vowel; a kana syllable is one hiragana with its entry in \<open>mono\<close>, or two with their
  entry in \<open>digraph\<close>, and does not start with a small kana; a romaji syllable is made of
  lower-case letters other than \<open>x\<close> and is found by the parser's look-ups in the order
  they are tried; a key that starts with \<open>n\<close> goes on with a vowel or \<open>y\<close>.
\<close>

fun cv_shape :: "ustr \<Rightarrow> bool" where
  "cv_shape [] = False"
| "cv_shape (c # cs) = (if c \<in> set vowels then cs = [] else cv_shape cs)"

definition small_second :: ustr where
  "small_second = [0x3083, 0x3085, 0x3087, 0x3041, 0x3043, 0x3047, 0x3049]"

definition hira_char :: "uchar \<Rightarrow> bool" where
  "hira_char c \<longleftrightarrow> c < 0x30A1 \<and> c \<noteq> 0x3063 \<and> c \<notin> set small_second"

definition kana_ok :: "ustr \<times> ustr \<Rightarrow> bool" where
  "kana_ok u =
     (case u of
        ([c], r) \<Rightarrow> hira_char c \<and> map_of k2r_mono c = Some r
      | ([c1, c2], r) \<Rightarrow> hira_char c1 \<and> c2 < 0x30A1 \<and> map_of k2r_digraph [c1, c2] = Some r
      | _ \<Rightarrow> False)"

definition plain_letter :: "uchar \<Rightarrow> bool" where
  "plain_letter c \<longleftrightarrow> 0x61 \<le> c \<and> c \<le> 0x7A \<and> c \<noteq> 0x78"

definition roma_ok :: "ustr \<times> ustr \<Rightarrow> bool" where
  "roma_ok u =
     (case u of (k, r) \<Rightarrow>
        cv_shape r \<and> list_all plain_letter r \<and> length r \<le> 3 \<and>
        ((length r = 3 \<and> map_of r2k_digraph r = Some k) \<or>
         (map_of r2k_digraph r = None \<and> map_of r2k_mono r = Some k)))"

definition nasal_key_ok :: "ustr \<Rightarrow> bool" where
  "nasal_key_ok key =
     (case key of
        [] \<Rightarrow> False
      | [c] \<Rightarrow> c \<noteq> 0x6E
      | c # d # _ \<Rightarrow> c \<noteq> 0x6E \<or> d \<in> set vowels \<or> d = 0x79)"

section \<open>Evaluation\<close>

lemma asc_simps: "asc [] = []" "asc (c # cs) = of_char c # asc cs"
  by (simp_all add: asc_def)

text \<open>The tables with their romaji as code points, and their look-ups as chains of tests.\<close>

lemma k2r_digraph_code:
  "k2r_digraph =
  [([0x304D, 0x3083], [107, 121, 97]), ([0x304D, 0x3085], [107, 121, 117]), ([0x304D, 0x3087], [107, 121, 111]),
   ([0x304E, 0x3083], [103, 121, 97]), ([0x304E, 0x3085], [103, 121, 117]), ([0x304E, 0x3087], [103, 121, 111]),
   ([0x3057, 0x3083], [115, 104, 97]), ([0x3057, 0x3085], [115, 104, 117]), ([0x3057, 0x3087], [115, 104, 111]),
   ([0x3058, 0x3083], [106, 97]), ([0x3058, 0x3085], [106, 117]), ([0x3058, 0x3087], [106, 111]),
   ([0x3061, 0x3083], [99, 104, 97]), ([0x3061, 0x3085], [99, 104, 117]), ([0x3061, 0x3087], [99, 104, 111]),
   ([0x306B, 0x3083], [110, 121, 97]), ([0x306B, 0x3085], [110, 121, 117]), ([0x306B, 0x3087], [110, 121, 111]),
   ([0x3072, 0x3083], [104, 121, 97]), ([0x3072, 0x3085], [104, 121, 117]), ([0x3072, 0x3087], [104, 121, 111]),
   ([0x3073, 0x3083], [98, 121, 97]), ([0x3073, 0x3085], [98, 121, 117]), ([0x3073, 0x3087], [98, 121, 111]),
   ([0x3074, 0x3083], [112, 121, 97]), ([0x3074, 0x3085], [112, 121, 117]), ([0x3074, 0x3087], [112, 121, 111]),
   ([0x307F, 0x3083], [109, 121, 97]), ([0x307F, 0x3085], [109, 121, 117]), ([0x307F, 0x3087], [109, 121, 111]),
   ([0x308A, 0x3083], [114, 121, 97]), ([0x308A, 0x3085], [114, 121, 117]), ([0x308A, 0x3087], [114, 121, 111]),
   ([0x3094, 0x3041], [118, 97]), ([0x3094, 0x3043], [118, 105]), ([0x3094, 0x3047], [118, 101]),
   ([0x3094, 0x3049], [118, 111])]"
  by (simp add: k2r_digraph_def asc_simps)

lemma k2r_mono_code:
  "k2r_mono =
  [(0x3042, [97]), (0x3044, [105]), (0x3046, [117]), (0x3048, [101]),
   (0x304A, [111]), (0x304B, [107, 97]), (0x304D, [107, 105]), (0x304F, [107, 117]),
   (0x3051, [107, 101]), (0x3053, [107, 111]), (0x304C, [103, 97]), (0x304E, [103, 105]),
   (0x3050, [103, 117]), (0x3052, [103, 101]), (0x3054, [103, 111]), (0x3055, [115, 97]),
   (0x3057, [115, 104, 105]), (0x3059, [115, 117]), (0x305B, [115, 101]), (0x305D, [115, 111]),
   (0x3056, [122, 97]), (0x3058, [106, 105]), (0x305A, [122, 117]), (0x305C, [122, 101]),
   (0x305E, [122, 111]), (0x305F, [116, 97]), (0x3061, [99, 104, 105]), (0x3064, [116, 115, 117]),
   (0x3066, [116, 101]), (0x3068, [116, 111]), (0x3060, [100, 97]), (0x3062, [106, 105]),
   (0x3065, [122, 117]), (0x3067, [100, 101]), (0x3069, [100, 111]), (0x306A, [110, 97]),
   (0x306B, [110, 105]), (0x306C, [110, 117]), (0x306D, [110, 101]), (0x306E, [110, 111]),
   (0x306F, [104, 97]), (0x3072, [104, 105]), (0x3075, [102, 117]), (0x3078, [104, 101]),
   (0x307B, [104, 111]), (0x3070, [98, 97]), (0x3073, [98, 105]), (0x3076, [98, 117]),
   (0x3079, [98, 101]), (0x307C, [98, 111]), (0x3071, [112, 97]), (0x3074, [112, 105]),
   (0x3077, [112, 117]), (0x307A, [112, 101]), (0x307D, [112, 111]), (0x307E, [109, 97]),
   (0x307F, [109, 105]), (0x3080, [109, 117]), (0x3081, [109, 101]), (0x3082, [109, 111]),
   (0x3084, [121, 97]), (0x3086, [121, 117]), (0x3088, [121, 111]), (0x3089, [114, 97]),
   (0x308A, [114, 105]), (0x308B, [114, 117]), (0x308C, [114, 101]), (0x308D, [114, 111]),
   (0x308F, [119, 97]), (0x3092, [111]), (0x3093, [110]), (0x3041, [97]),
   (0x3043, [105]), (0x3045, [117]), (0x3047, [101]), (0x3049, [111]),
   (0x3094, [118, 117]), (0x308E, [119, 97]), (0x3095, [107, 97]), (0x3096, [107, 97]),
   (0x30FC, [45]), (0x3063, [])]"
  by (simp add: k2r_mono_def asc_simps)

lemma xmap_code:
  "xmap =
  [([120, 97], [0x3041]), ([120, 105], [0x3043]), ([120, 117], [0x3045]),
   ([120, 101], [0x3047]), ([120, 111], [0x3049]), ([120, 121, 97], [0x3083]),
   ([120, 121, 117], [0x3085]), ([120, 121, 111], [0x3087]), ([120, 116, 115, 117], [0x3063]),
   ([120, 119, 97], [0x308E])]"
  by (simp add: xmap_def asc_simps)

lemma r2k_digraph_code:
  "r2k_digraph =
  [([107, 121, 97], [0x304D, 0x3083]), ([107, 121, 117], [0x304D, 0x3085]), ([107, 121, 111], [0x304D, 0x3087]),
   ([103, 121, 97], [0x304E, 0x3083]), ([103, 121, 117], [0x304E, 0x3085]), ([103, 121, 111], [0x304E, 0x3087]),
   ([115, 104, 97], [0x3057, 0x3083]), ([115, 104, 117], [0x3057, 0x3085]), ([115, 104, 111], [0x3057, 0x3087]),
   ([106, 97], [0x3058, 0x3083]), ([106, 117], [0x3058, 0x3085]), ([106, 111], [0x3058, 0x3087]),
   ([99, 104, 97], [0x3061, 0x3083]), ([99, 104, 117], [0x3061, 0x3085]), ([99, 104, 111], [0x3061, 0x3087]),
   ([110, 121, 97], [0x306B, 0x3083]), ([110, 121, 117], [0x306B, 0x3085]), ([110, 121, 111], [0x306B, 0x3087]),
   ([104, 121, 97], [0x3072, 0x3083]), ([104, 121, 117], [0x3072, 0x3085]), ([104, 121, 111], [0x3072, 0x3087]),
   ([98, 121, 97], [0x3073, 0x3083]), ([98, 121, 117], [0x3073, 0x3085]), ([98, 121, 111], [0x3073, 0x3087]),
   ([112, 121, 97], [0x3074, 0x3083]), ([112, 121, 117], [0x3074, 0x3085]), ([112, 121, 111], [0x3074, 0x3087]),
   ([109, 121, 97], [0x307F, 0x3083]), ([109, 121, 117], [0x307F, 0x3085]), ([109, 121, 111], [0x307F, 0x3087]),
   ([114, 121, 97], [0x308A, 0x3083]), ([114, 121, 117], [0x308A, 0x3085]), ([114, 121, 111], [0x308A, 0x3087])]"
  by (simp add: r2k_digraph_def asc_simps)

lemma r2k_mono_code:
  "r2k_mono =
  [([97], [0x3042]), ([105], [0x3044]), ([117], [0x3046]), ([101], [0x3048]),
   ([111], [0x304A]), ([107, 97], [0x304B]), ([107, 105], [0x304D]), ([107, 117], [0x304F]),
   ([107, 101], [0x3051]), ([107, 111], [0x3053]), ([103, 97], [0x304C]), ([103, 105], [0x304E]),
   ([103, 117], [0x3050]), ([103, 101], [0x3052]), ([103, 111], [0x3054]), ([115, 97], [0x3055]),
   ([115, 104, 105], [0x3057]), ([115, 117], [0x3059]), ([115, 101], [0x305B]), ([115, 111], [0x305D]),
   ([122, 97], [0x3056]), ([106, 105], [0x3058]), ([122, 117], [0x305A]), ([122, 101], [0x305C]),
   ([122, 111], [0x305E]), ([116, 97], [0x305F]), ([99, 104, 105], [0x3061]), ([116, 115, 117], [0x3064]),
   ([116, 101], [0x3066]), ([116, 111], [0x3068]), ([100, 97], [0x3060]), ([100, 105], [0x3062]),
   ([100, 117], [0x3065]), ([100, 101], [0x3067]), ([100, 111], [0x3069]), ([110, 97], [0x306A]),
   ([110, 105], [0x306B]), ([110, 117], [0x306C]), ([110, 101], [0x306D]), ([110, 111], [0x306E]),
   ([104, 97], [0x306F]), ([104, 105], [0x3072]), ([102, 117], [0x3075]), ([104, 101], [0x3078]),
   ([104, 111], [0x307B]), ([98, 97], [0x3070]), ([98, 105], [0x3073]), ([98, 117], [0x3076]),
   ([98, 101], [0x3079]), ([98, 111], [0x307C]), ([112, 97], [0x3071]), ([112, 105], [0x3074]),
   ([112, 117], [0x3077]), ([112, 101], [0x307A]), ([112, 111], [0x307D]), ([109, 97], [0x307E]),
   ([109, 105], [0x307F]), ([109, 117], [0x3080]), ([109, 101], [0x3081]), ([109, 111], [0x3082]),
   ([121, 97], [0x3084]), ([121, 117], [0x3086]), ([121, 111], [0x3088]), ([114, 97], [0x3089]),
   ([114, 105], [0x308A]), ([114, 117], [0x308B]), ([114, 101], [0x308C]), ([114, 111], [0x308D]),
   ([119, 97], [0x308F]), ([119, 111], [0x3092])]"
  by (simp add: r2k_mono_def asc_simps)

lemma merge_reps_code:
  "merge_reps =
  [([107, 105, 120, 121, 97], [107, 121, 97]), ([107, 105, 120, 121, 117], [107, 121, 117]), ([107, 105, 120, 121, 111], [107, 121, 111]),
   ([103, 105, 120, 121, 97], [103, 121, 97]), ([103, 105, 120, 121, 117], [103, 121, 117]), ([103, 105, 120, 121, 111], [103, 121, 111]),
   ([115, 105, 120, 121, 97], [115, 104, 97]), ([115, 105, 120, 121, 117], [115, 104, 117]), ([115, 105, 120, 121, 111], [115, 104, 111]),
   ([115, 104, 105, 120, 121, 97], [115, 104, 97]), ([115, 104, 105, 120, 121, 117], [115, 104, 117]), ([115, 104, 105, 120, 121, 111], [115, 104, 111]),
   ([106, 105, 120, 121, 97], [106, 97]), ([106, 105, 120, 121, 117], [106, 117]), ([106, 105, 120, 121, 111], [106, 111]),
   ([99, 104, 105, 120, 121, 97], [99, 104, 97]), ([99, 104, 105, 120, 121, 117], [99, 104, 117]), ([99, 104, 105, 120, 121, 111], [99, 104, 111]),
   ([110, 105, 120, 121, 97], [110, 121, 97]), ([110, 105, 120, 121, 117], [110, 121, 117]), ([110, 105, 120, 121, 111], [110, 121, 111]),
   ([104, 105, 120, 121, 97], [104, 121, 97]), ([104, 105, 120, 121, 117], [104, 121, 117]), ([104, 105, 120, 121, 111], [104, 121, 111]),
   ([98, 105, 120, 121, 97], [98, 121, 97]), ([98, 105, 120, 121, 117], [98, 121, 117]), ([98, 105, 120, 121, 111], [98, 121, 111]),
   ([112, 105, 120, 121, 97], [112, 121, 97]), ([112, 105, 120, 121, 117], [112, 121, 117]), ([112, 105, 120, 121, 111], [112, 121, 111]),
   ([109, 105, 120, 121, 97], [109, 121, 97]), ([109, 105, 120, 121, 117], [109, 121, 117]), ([109, 105, 120, 121, 111], [109, 121, 111]),
   ([114, 105, 120, 121, 97], [114, 121, 97]), ([114, 105, 120, 121, 117], [114, 121, 117]), ([114, 105, 120, 121, 111], [114, 121, 111])]"
  by (simp add: merge_reps_def asc_simps)

lemma k2r_digraph_lookup:
  "map_of k2r_digraph key =
    (if [12365, 12419] = key then Some [107, 121, 97] else
     if [12365, 12421] = key then Some [107, 121, 117] else
     if [12365, 12423] = key then Some [107, 121, 111] else
     if [12366, 12419] = key then Some [103, 121, 97] else
     if [12366, 12421] = key then Some [103, 121, 117] else
     if [12366, 12423] = key then Some [103, 121, 111] else
     if [12375, 12419] = key then Some [115, 104, 97] else
     if [12375, 12421] = key then Some [115, 104, 117] else
     if [12375, 12423] = key then Some [115, 104, 111] else
     if [12376, 12419] = key then Some [106, 97] else
     if [12376, 12421] = key then Some [106, 117] else
     if [12376, 12423] = key then Some [106, 111] else
     if [12385, 12419] = key then Some [99, 104, 97] else
     if [12385, 12421] = key then Some [99, 104, 117] else
     if [12385, 12423] = key then Some [99, 104, 111] else
     if [12395, 12419] = key then Some [110, 121, 97] else
     if [12395, 12421] = key then Some [110, 121, 117] else
     if [12395, 12423] = key then Some [110, 121, 111] else
     if [12402, 12419] = key then Some [104, 121, 97] else
     if [12402, 12421] = key then Some [104, 121, 117] else
     if [12402, 12423] = key then Some [104, 121, 111] else
     if [12403, 12419] = key then Some [98, 121, 97] else
     if [12403, 12421] = key then Some [98, 121, 117] else
     if [12403, 12423] = key then Some [98, 121, 111] else
     if [12404, 12419] = key then Some [112, 121, 97] else
     if [12404, 12421] = key then Some [112, 121, 117] else
     if [12404, 12423] = key then Some [112, 121, 111] else
     if [12415, 12419] = key then Some [109, 121, 97] else
     if [12415, 12421] = key then Some [109, 121, 117] else
     if [12415, 12423] = key then Some [109, 121, 111] else
     if [12426, 12419] = key then Some [114, 121, 97] else
     if [12426, 12421] = key then Some [114, 121, 117] else
     if [12426, 12423] = key then Some [114, 121, 111] else
     if [12436, 12353] = key then Some [118, 97] else
     if [12436, 12355] = key then Some [118, 105] else
     if [12436, 12359] = key then Some [118, 101] else
     if [12436, 12361] = key then Some [118, 111] else
     None)"
  by (simp only: k2r_digraph_code map_of_Cons_code map_of.simps(1))

lemma k2r_mono_lookup:
  "map_of k2r_mono c =
    (if 12354 = c then Some [97] else
     if 12356 = c then Some [105] else
     if 12358 = c then Some [117] else
     if 12360 = c then Some [101] else
     if 12362 = c then Some [111] else
     if 12363 = c then Some [107, 97] else
     if 12365 = c then Some [107, 105] else
     if 12367 = c then Some [107, 117] else
     if 12369 = c then Some [107, 101] else
     if 12371 = c then Some [107, 111] else
     if 12364 = c then Some [103, 97] else
     if 12366 = c then Some [103, 105] else
     if 12368 = c then Some [103, 117] else
     if 12370 = c then Some [103, 101] else
     if 12372 = c then Some [103, 111] else
     if 12373 = c then Some [115, 97] else
     if 12375 = c then Some [115, 104, 105] else
     if 12377 = c then Some [115, 117] else
     if 12379 = c then Some [115, 101] else
     if 12381 = c then Some [115, 111] else
     if 12374 = c then Some [122, 97] else
     if 12376 = c then Some [106, 105] else
     if 12378 = c then Some [122, 117] else
     if 12380 = c then Some [122, 101] else
     if 12382 = c then Some [122, 111] else
     if 12383 = c then Some [116, 97] else
     if 12385 = c then Some [99, 104, 105] else
     if 12388 = c then Some [116, 115, 117] else
     if 12390 = c then Some [116, 101] else
     if 12392 = c then Some [116, 111] else
     if 12384 = c then Some [100, 97] else
     if 12386 = c then Some [106, 105] else
     if 12389 = c then Some [122, 117] else
     if 12391 = c then Some [100, 101] else
     if 12393 = c then Some [100, 111] else
     if 12394 = c then Some [110, 97] else
     if 12395 = c then Some [110, 105] else
     if 12396 = c then Some [110, 117] else
     if 12397 = c then Some [110, 101] else
     if 12398 = c then Some [110, 111] else
     if 12399 = c then Some [104, 97] else
     if 12402 = c then Some [104, 105] else
     if 12405 = c then Some [102, 117] else
     if 12408 = c then Some [104, 101] else
     if 12411 = c then Some [104, 111] else
     if 12400 = c then Some [98, 97] else
     if 12403 = c then Some [98, 105] else
     if 12406 = c then Some [98, 117] else
     if 12409 = c then Some [98, 101] else
     if 12412 = c then Some [98, 111] else
     if 12401 = c then Some [112, 97] else
     if 12404 = c then Some [112, 105] else
     if 12407 = c then Some [112, 117] else
     if 12410 = c then Some [112, 101] else
     if 12413 = c then Some [112, 111] else
     if 12414 = c then Some [109, 97] else
     if 12415 = c then Some [109, 105] else
     if 12416 = c then Some [109, 117] else
     if 12417 = c then Some [109, 101] else
     if 12418 = c then Some [109, 111] else
     if 12420 = c then Some [121, 97] else
     if 12422 = c then Some [121, 117] else
     if 12424 = c then Some [121, 111] else
     if 12425 = c then Some [114, 97] else
     if 12426 = c then Some [114, 105] else
     if 12427 = c then Some [114, 117] else
     if 12428 = c then Some [114, 101] else
     if 12429 = c then Some [114, 111] else
     if 12431 = c then Some [119, 97] else
     if 12434 = c then Some [111] else
     if 12435 = c then Some [110] else
     if 12353 = c then Some [97] else
     if 12355 = c then Some [105] else
     if 12357 = c then Some [117] else
     if 12359 = c then Some [101] else
     if 12361 = c then Some [111] else
     if 12436 = c then Some [118, 117] else
     if 12430 = c then Some [119, 97] else
     if 12437 = c then Some [107, 97] else
     if 12438 = c then Some [107, 97] else
     if 12540 = c then Some [45] else
     if 12387 = c then Some [] else
     None)"
  by (simp only: k2r_mono_code map_of_Cons_code map_of.simps(1))

lemma xmap_lookup:
  "map_of xmap key =
    (if [120, 97] = key then Some [12353] else
     if [120, 105] = key then Some [12355] else
     if [120, 117] = key then Some [12357] else
     if [120, 101] = key then Some [12359] else
     if [120, 111] = key then Some [12361] else
     if [120, 121, 97] = key then Some [12419] else
     if [120, 121, 117] = key then Some [12421] else
     if [120, 121, 111] = key then Some [12423] else
     if [120, 116, 115, 117] = key then Some [12387] else
     if [120, 119, 97] = key then Some [12430] else
     None)"
  by (simp only: xmap_code map_of_Cons_code map_of.simps(1))

lemma r2k_digraph_lookup:
  "map_of r2k_digraph key =
    (if [107, 121, 97] = key then Some [12365, 12419] else
     if [107, 121, 117] = key then Some [12365, 12421] else
     if [107, 121, 111] = key then Some [12365, 12423] else
     if [103, 121, 97] = key then Some [12366, 12419] else
     if [103, 121, 117] = key then Some [12366, 12421] else
     if [103, 121, 111] = key then Some [12366, 12423] else
     if [115, 104, 97] = key then Some [12375, 12419] else
     if [115, 104, 117] = key then Some [12375, 12421] else
     if [115, 104, 111] = key then Some [12375, 12423] else
     if [106, 97] = key then Some [12376, 12419] else
     if [106, 117] = key then Some [12376, 12421] else
     if [106, 111] = key then Some [12376, 12423] else
     if [99, 104, 97] = key then Some [12385, 12419] else
     if [99, 104, 117] = key then Some [12385, 12421] else
     if [99, 104, 111] = key then Some [12385, 12423] else
     if [110, 121, 97] = key then Some [12395, 12419] else
     if [110, 121, 117] = key then Some [12395, 12421] else
     if [110, 121, 111] = key then Some [12395, 12423] else
     if [104, 121, 97] = key then Some [12402, 12419] else
     if [104, 121, 117] = key then Some [12402, 12421] else
     if [104, 121, 111] = key then Some [12402, 12423] else
     if [98, 121, 97] = key then Some [12403, 12419] else
     if [98, 121, 117] = key then Some [12403, 12421] else
     if [98, 121, 111] = key then Some [12403, 12423] else
     if [112, 121, 97] = key then Some [12404, 12419] else
     if [112, 121, 117] = key then Some [12404, 12421] else
     if [112, 121, 111] = key then Some [12404, 12423] else
     if [109, 121, 97] = key then Some [12415, 12419] else
     if [109, 121, 117] = key then Some [12415, 12421] else
     if [109, 121, 111] = key then Some [12415, 12423] else
     if [114, 121, 97] = key then Some [12426, 12419] else
     if [114, 121, 117] = key then Some [12426, 12421] else
     if [114, 121, 111] = key then Some [12426, 12423] else
     None)"
  by (simp only: r2k_digraph_code map_of_Cons_code map_of.simps(1))

lemma r2k_mono_lookup:
  "map_of r2k_mono key =
    (if [97] = key then Some [12354] else
     if [105] = key then Some [12356] else
     if [117] = key then Some [12358] else
     if [101] = key then Some [12360] else
     if [111] = key then Some [12362] else
     if [107, 97] = key then Some [12363] else
     if [107, 105] = key then Some [12365] else
     if [107, 117] = key then Some [12367] else
     if [107, 101] = key then Some [12369] else
     if [107, 111] = key then Some [12371] else
     if [103, 97] = key then Some [12364] else
     if [103, 105] = key then Some [12366] else
     if [103, 117] = key then Some [12368] else
     if [103, 101] = key then Some [12370] else
     if [103, 111] = key then Some [12372] else
     if [115, 97] = key then Some [12373] else
     if [115, 104, 105] = key then Some [12375] else
     if [115, 117] = key then Some [12377] else
     if [115, 101] = key then Some [12379] else
     if [115, 111] = key then Some [12381] else
     if [122, 97] = key then Some [12374] else
     if [106, 105] = key then Some [12376] else
     if [122, 117] = key then Some [12378] else
     if [122, 101] = key then Some [12380] else
     if [122, 111] = key then Some [12382] else
     if [116, 97] = key then Some [12383] else
     if [99, 104, 105] = key then Some [12385] else
     if [116, 115, 117] = key then Some [12388] else
     if [116, 101] = key then Some [12390] else
     if [116, 111] = key then Some [12392] else
     if [100, 97] = key then Some [12384] else
     if [100, 105] = key then Some [12386] else
     if [100, 117] = key then Some [12389] else
     if [100, 101] = key then Some [12391] else
     if [100, 111] = key then Some [12393] else
     if [110, 97] = key then Some [12394] else
     if [110, 105] = key then Some [12395] else
     if [110, 117] = key then Some [12396] else
     if [110, 101] = key then Some [12397] else
     if [110, 111] = key then Some [12398] else
     if [104, 97] = key then Some [12399] else
     if [104, 105] = key then Some [12402] else
     if [102, 117] = key then Some [12405] else
     if [104, 101] = key then Some [12408] else
     if [104, 111] = key then Some [12411] else
     if [98, 97] = key then Some [12400] else
     if [98, 105] = key then Some [12403] else
     if [98, 117] = key then Some [12406] else
     if [98, 101] = key then Some [12409] else
     if [98, 111] = key then Some [12412] else
     if [112, 97] = key then Some [12401] else
     if [112, 105] = key then Some [12404] else
     if [112, 117] = key then Some [12407] else
     if [112, 101] = key then Some [12410] else
     if [112, 111] = key then Some [12413] else
     if [109, 97] = key then Some [12414] else
     if [109, 105] = key then Some [12415] else
     if [109, 117] = key then Some [12416] else
     if [109, 101] = key then Some [12417] else
     if [109, 111] = key then Some [12418] else
     if [121, 97] = key then Some [12420] else
     if [121, 117] = key then Some [12422] else
     if [121, 111] = key then Some [12424] else
     if [114, 97] = key then Some [12425] else
     if [114, 105] = key then Some [12426] else
     if [114, 117] = key then Some [12427] else
     if [114, 101] = key then Some [12428] else
     if [114, 111] = key then Some [12429] else
     if [119, 97] = key then Some [12431] else
     if [119, 111] = key then Some [12434] else
     None)"
  by (simp only: r2k_mono_code map_of_Cons_code map_of.simps(1))

declare r2k_loop.simps [simp del]

lemmas k2r_eval = kana_to_romaji_def kata_to_hira_def SOKUON_def k2r_digraph_lookup k2r_mono_lookup
  geminate_def consonants_def vowels_def asc_simps

lemmas r2k_eval = romaji_to_kana_def romaji_to_kana_relaxed_def py_strip_def py_lower_def
  ascii_lower_def py_lower_char_def py_isspace_def merge_split_x_def merge_reps_code starts_with_def in_table_def
  emit_def xmap_lookup r2k_digraph_lookup r2k_mono_lookup hira_to_kata_def asc_simps vowels_def
  r2k_loop.simps

lemmas exact_eval = exact_ops_def round_half_even_def sm2_update_def ef_update_def

section \<open>Empty input\<close>

text \<open>
  Claim C4, as the code has it: on the empty string \<open>kana_to_romaji\<close> returns the empty
  string and \<open>romaji_to_kana_relaxed\<close> the pair of empty strings, while the strict
  \<open>romaji_to_kana\<close> returns \<open>None\<close>, its value for "no parse", and raises nothing.
\<close>

theorem empty_input:
  "kana_to_romaji [] = [] \<and> romaji_to_kana ulower [] = None \<and>
   romaji_to_kana_relaxed ulower [] = ([], [])"
  by (simp add: kana_to_romaji_def romaji_to_kana_def romaji_to_kana_relaxed_def py_strip_def
        py_lower_def)

text \<open>
  Claim C4 as stated asks for a result of \<open>romaji_to_kana\<close> that is not absent: there is
  none on the empty string.
\<close>

theorem romaji_to_kana_empty_absent: "\<not> (\<exists>r. romaji_to_kana ascii_lower [] = Some r)"
  by (simp add: romaji_to_kana_def)

section \<open>The scheduler\<close>

text \<open>
  Claim C6: for every row and every quality below 3, \<open>sm2_update\<close> returns interval 1,
  repetition 0 and the updated easiness, held at the floor 1.3, whatever the float
  arithmetic; in exact arithmetic the easiness is
  \<open>max 1.3 (ef + 0.1 - (5 - q) * (0.08 + (5 - q) * 0.02))\<close>.
\<close>

theorem sm2_lapse:
  fixes F :: "'f float_ops" and row :: "'f card_row" and erow :: "rat card_row"
  assumes "q < 3"
  shows "sm2_update F row q =
           Some (1, 0,
             (let e = fadd F (row_ef row) (fsub F (f0_1 F)
                        (fmul F (ffloat F (5 - q))
                           (fadd F (f0_08 F) (fmul F (ffloat F (5 - q)) (f0_02 F)))))
              in if flt F e (f1_3 F) then f1_3 F else e))
         \<and> sm2_update exact_ops erow q =
           Some (1, 0, max (13 / 10)
                  (row_ef erow + 1 / 10 - of_int (5 - q) * (8 / 100 + of_int (5 - q) * (2 / 100))))"
  using assms by (simp add: sm2_update_def ef_update_def exact_ops_def Let_def max_def)

theorem sm2_lapse_witness:
  "(1::int) < 3 \<and> sm2_update exact_ops demo_row 1 = Some (1, 0, 196 / 100)"
  using sm2_lapse [where q = 1 and F = exact_ops and row = demo_row and erow = demo_row]
  by (simp add: demo_row_def exact_ops_def)

lemma sm2_none_iff:
  "sm2_update F row q = None \<longleftrightarrow>
     (\<not> q < 3 \<and> row_repetition row + 1 \<noteq> 1 \<and> row_repetition row + 1 \<noteq> 2 \<and>
      fround F (fmul F (ffloat F (row_interval row)) (row_ef row)) = None)"
  by (simp add: sm2_update_def Let_def split: option.splits)

lemma sm2_some_ef:
  "sm2_update F row q = Some (i, r, e) \<Longrightarrow>
     e = (if flt F (ef_update F (row_ef row) q) (f1_3 F) then f1_3 F
          else ef_update F (row_ef row) q)"
  by (auto simp add: sm2_update_def Let_def split: option.splits if_splits)

text \<open>
  Claim C7: in every arithmetic where a float is either below 1.3 or at least 1.3 (no
  NaN), the easiness that \<open>sm2_update\<close> returns is at least 1.3, for every interval,
  repetition, easiness and quality; it is the updated easiness itself whenever that is
  not below 1.3, so nothing bounds it from above. The function returns unless
  \<open>round\<close> raises, which only the third branch of a passing review can do.
\<close>

theorem sm2_easiness_floor:
  fixes F :: "'f float_ops" and row :: "'f card_row"
  assumes total: "\<And>x. \<not> flt F x (f1_3 F) \<Longrightarrow> fge F x (f1_3 F)"
      and refl: "fge F (f1_3 F) (f1_3 F)"
  shows "case sm2_update F row q of
            None \<Rightarrow> \<not> q < 3 \<and> row_repetition row + 1 \<noteq> 1 \<and> row_repetition row + 1 \<noteq> 2 \<and>
                     fround F (fmul F (ffloat F (row_interval row)) (row_ef row)) = None
          | Some (i, r, e) \<Rightarrow>
              fge F e (f1_3 F) \<and>
              (\<not> flt F (ef_update F (row_ef row) q) (f1_3 F) \<longrightarrow> e = ef_update F (row_ef row) q)"
proof (cases "sm2_update F row q")
  case None
  then show ?thesis using sm2_none_iff [of F row q] by simp
next
  case (Some res)
  obtain i r e where res: "res = (i, r, e)" by (cases res)
  have e: "e = (if flt F (ef_update F (row_ef row) q) (f1_3 F) then f1_3 F
                else ef_update F (row_ef row) q)"
    using sm2_some_ef [of F row q i r e] Some res by simp
  have "fge F e (f1_3 F)"
    using e total refl by (cases "flt F (ef_update F (row_ef row) q) (f1_3 F)") simp_all
  then show ?thesis using Some res e by simp
qed

theorem sm2_easiness_floor_witness:
  "case sm2_update exact_ops demo_row 5 of
     None \<Rightarrow> False
   | Some (i, r, e) \<Rightarrow> i = 15 \<and> r = 3 \<and> e = 26 / 10 \<and> fge exact_ops e (f1_3 exact_ops)"
  using sm2_easiness_floor [where F = exact_ops and row = demo_row and q = 5]
  by (simp add: demo_row_def exact_eval Let_def)

section \<open>Queue construction\<close>

lemma sort_key_map_inv:
  "(\<And>x. f (g x) = f x) \<Longrightarrow> sort_key f (map g xs) = map g (sort_key f xs)"
proof (induction xs)
  case Nil
  then show ?case by simp
next
  case (Cons x xs)
  have ins: "insort_key f (g x) (map g ys) = map g (insort_key f x ys)" for ys
    using Cons.prems by (induction ys) simp_all
  show ?case using Cons by (simp add: ins)
qed

lemma select_all_due: "select_all (map (set_due d) conn) = map (set_due d) (select_all conn)"
  unfolding select_all_def by (rule sort_key_map_inv) (simp add: set_due_def)

lemma select_unit_due:
  "select_unit (map (set_due d) conn) u = map (set_due d) (select_unit conn u)"
  unfolding select_unit_def
  by (simp add: filter_map o_def set_due_def sort_key_map_inv [symmetric])

lemma select_units_due:
  "select_units (map (set_due d) conn) us = map (set_due d) (select_units conn us)"
  unfolding select_units_def
  by (simp add: filter_map o_def set_due_def sort_key_map_inv [symmetric])

lemma list_cards_due:
  "list_cards_by_unit (map (set_due d) conn) unit = map (set_due d) (list_cards_by_unit conn unit)"
  by (simp add: list_cards_by_unit_def select_all_due select_unit_due select_units_due Let_def
        split: unit_arg.splits)

text \<open>
  Claim C9: for every table and every unit argument, \<open>list_due_cards\<close> returns the rows of
  \<open>list_cards_by_unit\<close> in the same order. Due dates play no part: rewriting the due
  dates of the table rewrites them in the result and changes nothing else, and with no
  unit given every card of the table is fetched.
\<close>

theorem due_cards_unfiltered:
  "list_due_cards conn unit = list_cards_by_unit conn unit \<and>
   list_due_cards (map (set_due d) conn) unit = map (set_due d) (list_due_cards conn unit) \<and>
   set (list_due_cards conn UnitNone) = set conn"
  by (simp add: list_due_cards_def list_cards_due) (simp add: list_cards_by_unit_def select_all_def)

section \<open>The small tsu\<close>

lemma digraph_no_sokuon: "map_of k2r_digraph [ch, SOKUON] = None"
  by (simp add: k2r_digraph_def SOKUON_def)

lemma tokens_sokuon_last: "k2r_tokens b (xs @ [SOKUON]) = k2r_tokens b xs"
proof (induction b xs rule: k2r_tokens.induct)
  case (1 sokuon)
  then show ?case by simp
next
  case (2 sokuon ch)
  then show ?case by (simp add: digraph_no_sokuon)
next
  case (3 sokuon ch c2 rest)
  then show ?case by (simp split: option.splits)
qed

lemma tokens_sokuon_mid: "k2r_tokens b (p @ SOKUON # r) = k2r_tokens b p @ k2r_tokens True r"
proof (induction b p rule: k2r_tokens.induct)
  case (1 sokuon)
  then show ?case by (cases r) simp_all
next
  case (2 sokuon ch)
  then show ?case by (cases r) (simp_all add: digraph_no_sokuon)
next
  case (3 sokuon ch c2 rest)
  then show ?case by (simp split: option.splits)
qed

lemma geminate_vowel: "v \<in> set vowels \<Longrightarrow> geminate b (v # t) = v # t"
  by (auto simp add: geminate_def vowels_def consonants_def asc_simps)

lemma geminate_False: "geminate False t = t"
  by (simp add: geminate_def split: list.splits)

lemma tokens_flag_vowel:
  assumes "k2r_tokens False r = (v # t) # ts" and "v \<in> set vowels"
  shows "k2r_tokens True r = k2r_tokens False r"
proof (cases r)
  case Nil
  then show ?thesis using assms by simp
next
  case (Cons ch rest)
  show ?thesis
  proof (cases rest)
    case Nil
    then show ?thesis using assms Cons
      by (auto simp add: geminate_False geminate_vowel split: if_splits)
  next
    case (Cons c2 rest')
    then show ?thesis using assms \<open>r = ch # rest\<close>
      by (auto simp add: geminate_False geminate_vowel split: if_splits option.splits)
  qed
qed

lemma kata_to_hira_append: "kata_to_hira (p @ r) = kata_to_hira p @ kata_to_hira r"
  by (simp add: kata_to_hira_def)

lemma kata_to_hira_sokuon: "kata_to_hira [SOKUON] = [SOKUON]"
  by (simp add: kata_to_hira_def SOKUON_def)

text \<open>
  Claim C10: a small tsu at the end of the input adds nothing to the output, and a small
  tsu before a syllable whose romanisation starts with a vowel adds nothing and doubles
  nothing: the output is built from the tokens of what stands before it and the
  unchanged tokens of what follows. So \<open>kana_to_romaji\<close> of "a, small tsu" and of
  "small tsu, a" are both \<open>a\<close>.
\<close>

theorem sokuon_without_consonant:
  "kana_to_romaji (s @ [SOKUON]) = kana_to_romaji s \<and>
   (k2r_tokens False (kata_to_hira r) = (v # t) # ts \<and> v \<in> set vowels \<longrightarrow>
      kana_to_romaji (p @ SOKUON # r) =
        k2r_join [] (k2r_tokens False (kata_to_hira p) @ k2r_tokens False (kata_to_hira r))) \<and>
   kana_to_romaji [0x3042, 0x3063] = asc ''a'' \<and>
   kana_to_romaji [0x3063, 0x3042] = asc ''a''"
proof (intro conjI impI)
  show "kana_to_romaji (s @ [SOKUON]) = kana_to_romaji s"
    by (cases "s = []")
       (simp_all add: kana_to_romaji_def kata_to_hira_append kata_to_hira_sokuon tokens_sokuon_last)
next
  assume h: "k2r_tokens False (kata_to_hira r) = (v # t) # ts \<and> v \<in> set vowels"
  have "kata_to_hira (p @ SOKUON # r) = kata_to_hira p @ SOKUON # kata_to_hira r"
    using kata_to_hira_append [of p "[SOKUON] @ r"] kata_to_hira_append [of "[SOKUON]" r]
    by (simp add: kata_to_hira_sokuon)
  then show "kana_to_romaji (p @ SOKUON # r) =
        k2r_join [] (k2r_tokens False (kata_to_hira p) @ k2r_tokens False (kata_to_hira r))"
    using h tokens_flag_vowel [of "kata_to_hira r" v t ts]
    by (simp add: kana_to_romaji_def tokens_sokuon_mid)
next
  show "kana_to_romaji [0x3042, 0x3063] = asc ''a''"
    by (simp add: k2r_eval)
next
  show "kana_to_romaji [0x3063, 0x3042] = asc ''a''"
    by (simp add: k2r_eval)
qed

theorem sokuon_without_consonant_witness:
  "kana_to_romaji [0x304B, 0x3063, 0x3042] = asc ''kaa'' \<and>
   kana_to_romaji [0x304B, 0x3063] = asc ''ka''"
  using sokuon_without_consonant [where s = "[0x304B]" and p = "[0x304B]" and r = "[0x3042]"
    and v = "0x61" and t = "[]" and ts = "[]"]
  by (simp add: k2r_eval)

section \<open>Answer equivalence\<close>

lemma strip_keeps: "c \<in> set s \<Longrightarrow> \<not> py_isspace c \<Longrightarrow> c \<in> set (py_strip s)"
proof -
  have dw: "c \<in> set xs \<Longrightarrow> \<not> py_isspace c \<Longrightarrow> c \<in> set (dropWhile py_isspace xs)" for xs
    by (induction xs) auto
  assume "c \<in> set s" "\<not> py_isspace c"
  then show ?thesis unfolding py_strip_def using dw [of "rev (dropWhile py_isspace s)"] dw [of s]
    by simp
qed

lemma strip_idem: "py_strip (py_strip s) = py_strip s"
proof -
  define a where "a = dropWhile py_isspace s"
  define b where "b = dropWhile py_isspace (rev a)"
  have b_hd: "b \<noteq> [] \<Longrightarrow> \<not> py_isspace (hd b)"
    unfolding b_def by (simp add: hd_dropWhile)
  have a_hd: "a \<noteq> [] \<Longrightarrow> \<not> py_isspace (hd a)"
    unfolding a_def by (simp add: hd_dropWhile)
  have "b \<noteq> [] \<Longrightarrow> last b = hd a"
  proof -
    assume nb: "b \<noteq> []"
    have "rev a = takeWhile py_isspace (rev a) @ b" unfolding b_def by simp
    then have "last (rev a) = last b" using nb by (metis last_appendR)
    moreover have "a \<noteq> []" using nb b_def by auto
    ultimately show ?thesis by (simp add: last_rev)
  qed
  then have "b \<noteq> [] \<Longrightarrow> \<not> py_isspace (last b)"
    using a_hd b_def by (metis dropWhile.simps(1) rev_is_Nil_conv)
  then have 1: "dropWhile py_isspace (rev b) = rev b"
    by (cases "b = []") (simp_all add: dropWhile_eq_self_iff hd_rev)
  have 2: "dropWhile py_isspace b = b"
    using b_hd by (cases "b = []") (simp_all add: dropWhile_eq_self_iff)
  have "py_strip s = rev b" by (simp add: py_strip_def a_def b_def)
  then show ?thesis by (simp add: py_strip_def [of "rev b"] 1 2)
qed

lemma kana_not_space: "(0x3040 \<le> c \<and> c \<le> 0x309F) \<or> (0x30A0 \<le> c \<and> c \<le> 0x30FF) \<Longrightarrow> \<not> py_isspace c"
  by (auto simp add: py_isspace_def)

lemma has_kana_strip: "has_kana s \<Longrightarrow> has_kana (py_strip s)"
  unfolding has_kana_def using strip_keeps kana_not_space by blast

lemma has_kana_nonempty: "has_kana s \<Longrightarrow> s \<noteq> []"
  by (auto simp add: has_kana_def)

lemma norm_Some: "norm (Some s) = py_strip s"
  by (simp add: norm_def or_empty_def)

lemma norm_strip: "py_strip (norm x) = norm x"
  by (simp add: norm_def strip_idem)

lemma pick_kana_strip: "py_strip (pick_kana row) = pick_kana row"
  by (simp add: pick_kana_def Let_def strip_idem norm_strip) (simp add: py_strip_def)

lemma get_jp_kanji_strip: "py_strip (get_jp_kanji row) = get_jp_kanji row"
  by (simp add: get_jp_kanji_def strip_idem or_empty_def split: option.splits)
     (simp add: py_strip_def)

lemma pick_kana_empty: "pick_kana row = [] \<Longrightarrow> \<not> has_kana (norm (row_term row))"
  using has_kana_strip has_kana_nonempty
  by (auto simp add: pick_kana_def Let_def split: if_splits)

lemma answers_iff:
  "u \<noteq> [] \<Longrightarrow> u \<in> set (answers_of row) \<longleftrightarrow>
     u = pick_kana row \<or> u = get_jp_kanji row \<or>
     (u = norm (row_term row) \<and> (has_kana u \<or> has_kanji u))"
  by (auto simp add: answers_of_def Let_def norm_Some pick_kana_strip get_jp_kanji_strip)

lemma dict_fallback_iff:
  "dict_fallback lookup row u \<longleftrightarrow>
     pick_kana row \<noteq> [] \<and>
     (\<exists>a k m. lookup u = Some (a, k, m) \<and> py_strip k = pick_kana row)"
proof (cases "pick_kana row = []")
  case True
  then have "\<not> has_kana (norm (row_term row))" by (rule pick_kana_empty)
  then have "\<not> has_kana (py_strip (or_empty (row_term row)))" by (simp add: norm_def)
  with True show ?thesis
    by (simp add: dict_fallback_def Let_def norm_Some pick_kana_strip) (simp add: py_strip_def)
next
  case False
  then show ?thesis
    by (auto simp add: dict_fallback_def Let_def norm_Some pick_kana_strip split: option.splits)
qed

lemma has_kanji_Nil: "\<not> has_kanji []"
  by (simp add: has_kanji_def)

lemma record_review_fields:
  "answer_block (record_review s clk q) = answer_block s"
  "sm2_calls (record_review s clk q) = sm2_calls s"
  "session_total (record_review s clk q) = session_total s"
  "session_correct (record_review s clk q) = session_correct s"
  "rated (record_review s clk q) = rated s"
  "db (record_review s clk q) = db s"
  "current (record_review s clk q) = current s"
  "answer_box (record_review s clk q) = answer_box s"
  by (simp_all add: record_review_def split: option.splits prod.splits)

lemma record_review_reviews:
  "current s = Some (row, mode) \<Longrightarrow>
     reviews (record_review s clk q) =
       (if row_id row = 0 then reviews s
        else insert_review (reviews s) (row_id row) (now_iso clk) mode q (elapsed clk))"
  by (simp add: record_review_def)

lemma check_answer_fields:
  fixes lookup :: dictionary
  assumes cur: "current s = Some (row, 1)"
    and u: "u = py_strip (input_text s)"
    and c0: "c0 \<longleftrightarrow> u \<noteq> [] \<and> u \<in> set (answers_of row)"
    and q: "q = (if judged lookup row u then 4 else 1)"
  shows "case check_answer F lookup s clk of
           Inl e \<Rightarrow> sm2_update F row q = None
         | Inr s' \<Rightarrow>
             (\<exists>i r e. sm2_update F row q = Some (i, r, e) \<and>
                db s' = update_card_review (db s) (row_id row) i r e (Some (now_iso clk)) None) \<and>
             answer_block s' = Some (judged lookup row u) \<and>
             sm2_calls s' = sm2_calls s @ [(row_id row, q)] \<and>
             session_total s' = (if rated s then session_total s else session_total s + 1) \<and>
             session_correct s' =
               (if \<not> rated s \<and> c0 then session_correct s + 1 else session_correct s) \<and>
             reviews s' =
               (if row_id row = 0 then reviews s
                else insert_review (reviews s) (row_id row) (now_iso clk) 1 (if c0 then 4 else 1)
                       (elapsed clk)) \<and>
             rated s' \<and> current s' = current s"
proof -
  have cur': "current (s\<lparr>continue_enabled := True, rated := True\<rparr>) = Some (row, 1)"
             "\<And>a b. current (s\<lparr>session_total := a, session_correct := b,
                  continue_enabled := True, rated := True\<rparr>) = Some (row, 1)"
    using cur by simp_all
  show ?thesis
    using cur unfolding u c0 q
    apply (cases "py_strip (input_text s) = []";
           cases "py_strip (input_text s) \<in> set (answers_of row)";
           cases "has_kanji (py_strip (input_text s))";
           cases "dict_fallback lookup row (py_strip (input_text s))";
           cases "rated s")
    apply (simp_all add: check_answer_def norm_Some strip_idem judged_def Let_def
             record_review_fields record_review_reviews has_kanji_Nil
             split: option.splits prod.splits)
    done
qed

lemma check_answer_block:
  fixes lookup :: dictionary
  assumes cur: "current s = Some (row, 1)"
    and c1: "c1 \<longleftrightarrow> judged lookup row (py_strip (input_text s))"
  shows "case check_answer F lookup s clk of
              Inl e \<Rightarrow> sm2_update F row (if c1 then 4 else 1) = None
            | Inr s' \<Rightarrow> answer_block s' = Some c1 \<and>
                        sm2_calls s' = sm2_calls s @ [(row_id row, if c1 then 4 else 1)]"
  using check_answer_fields [OF cur refl refl refl, where lookup = lookup and F = F and clk = clk] c1
  by (cases "check_answer F lookup s clk") simp_all



lemma submit_rating_rated: "rated (submit_rating s clk q)"
  by (simp add: submit_rating_def Let_def)

lemma submit_rating_first:
  "\<not> rated s \<Longrightarrow>
     session_total (submit_rating s clk q) = session_total s + 1 \<and>
     session_correct (submit_rating s clk q) =
       session_correct s + (if q = 4 \<or> q = 5 then 1 else 0)"
  by (simp add: submit_rating_def Let_def record_review_fields)

lemma submit_rating_again: "rated s \<Longrightarrow> submit_rating s clk q = s"
  by (simp add: submit_rating_def)

lemmas study_eval = open_study_def new_study_def show_card_def demo_row_def check_answer_def
  record_review_def insert_review_def update_card_review_def answers_of_def pick_kana_def
  get_jp_kana_def get_jp_kanji_def norm_def or_empty_def py_strip_def py_isspace_def has_kana_def
  has_kanji_def dict_fallback_def exact_ops_def round_half_even_def sm2_update_def ef_update_def
  asc_simps Let_def ui_step_def toggle_meaning_def submit_rating_def mark_fail_def next_card_def
  demo_dict_def demo_clock_def recall_state_def recog_state_def

text \<open>
  Claim C8, as the code has it: a typed recall answer is accepted if and only if, after
  trimming, it is not empty and equals the card's kana (the kana column if it holds
  kana, else the term if it holds kana), the card's kanji, or the trimmed term when the
  term holds kana or kanji; or it holds kanji, the card has a kana reading, and the
  dictionary resolves it to an entry whose trimmed kana is that reading. The accepted
  answer is shown with the tick and scheduled with quality 4, the other with quality 1;
  the handler returns unless \<open>round\<close> raises in the scheduler.
\<close>

theorem recall_acceptance:
  fixes lookup :: dictionary
  assumes "current s = Some (row, 1)"
  shows "(let typed = py_strip (input_text s);
             term = norm (row_term row);
             accepted =
               (typed \<noteq> [] \<and>
                  (typed = pick_kana row \<or> typed = get_jp_kanji row \<or>
                   (typed = term \<and> (has_kana term \<or> has_kanji term))) \<or>
                has_kanji typed \<and> pick_kana row \<noteq> [] \<and>
                  (\<exists>a k m. lookup typed = Some (a, k, m) \<and> py_strip k = pick_kana row))
         in case check_answer F lookup s clk of
              Inl e \<Rightarrow> sm2_update F row (if accepted then 4 else 1) = None
            | Inr s' \<Rightarrow> answer_block s' = Some accepted \<and>
                        sm2_calls s' = sm2_calls s @ [(row_id row, if accepted then 4 else 1)])"
proof -
  define u where "u = py_strip (input_text s)"
  define c0 where "c0 \<longleftrightarrow> u \<noteq> [] \<and> u \<in> set (answers_of row)"
  define acc where "acc \<longleftrightarrow>
    (u \<noteq> [] \<and>
                  (u = pick_kana row \<or> u = get_jp_kanji row \<or>
                   (u = norm (row_term row) \<and> (has_kana (norm (row_term row)) \<or> has_kanji (norm (row_term row))))) \<or>
                has_kanji u \<and> pick_kana row \<noteq> [] \<and>
                  (\<exists>a k m. lookup u = Some (a, k, m) \<and> py_strip k = pick_kana row))"
  have c0': "c0 \<longleftrightarrow> u \<noteq> [] \<and> (u = pick_kana row \<or> u = get_jp_kanji row \<or>
        (u = norm (row_term row) \<and> (has_kana (norm (row_term row)) \<or> has_kanji (norm (row_term row)))))"
    unfolding c0_def using answers_iff [of u row] by auto
  have acc: "acc \<longleftrightarrow> judged lookup row (py_strip (input_text s))"
    unfolding acc_def judged_def Let_def u_def [symmetric] c0_def [symmetric]
    using c0' dict_fallback_iff [of lookup row u] by auto
  have "case check_answer F lookup s clk of
              Inl e \<Rightarrow> sm2_update F row (if acc then 4 else 1) = None
            | Inr s' \<Rightarrow> answer_block s' = Some acc \<and>
                        sm2_calls s' = sm2_calls s @ [(row_id row, if acc then 4 else 1)]"
    by (rule check_answer_block [OF assms acc])
  then show ?thesis unfolding Let_def acc_def u_def .
qed

theorem recall_acceptance_witness:
  "(case check_answer exact_ops demo_dict (recall_state\<lparr>input_text := [0x306D, 0x3053]\<rparr>) demo_clock of
      Inl e \<Rightarrow> False | Inr s' \<Rightarrow> answer_block s' = Some True) \<and>
   (case check_answer exact_ops demo_dict (recall_state\<lparr>input_text := [0x732B]\<rparr>) demo_clock of
      Inl e \<Rightarrow> False | Inr s' \<Rightarrow> answer_block s' = Some True) \<and>
   (case check_answer exact_ops demo_dict (recall_state\<lparr>input_text := [0x30CD, 0x30B3]\<rparr>) demo_clock of
      Inl e \<Rightarrow> False | Inr s' \<Rightarrow> answer_block s' = Some False)"
  using recall_acceptance [where s = "recall_state\<lparr>input_text := [0x306D, 0x3053]\<rparr>"
      and row = demo_row and F = exact_ops and lookup = demo_dict and clk = demo_clock]
  by (simp add: study_eval)

text \<open>
  Claim C8 as stated has no dictionary in it: here an answer that equals none of the
  card's kana, kanji and term is accepted.
\<close>

theorem dictionary_accepts_other_spelling:
  "case ui_run exact_ops demo_dict demo_clock recall_state [Type [0x5BDD, 0x5B50], Confirm] of
     Inl e \<Rightarrow> False
   | Inr s' \<Rightarrow> answer_block s' = Some True \<and>
       [0x5BDD, 0x5B50] \<notin> {pick_kana demo_row, get_jp_kanji demo_row, norm (row_term demo_row)}"
  by (simp add: study_eval)

section \<open>Judgments\<close>

subsection \<open>The queue that the program builds\<close>

text \<open>
  Whatever the shuffle, as long as it invents no direction, every entry of the queue of
  \<open>prepare_queue\<close> has direction 0; the window on the sample card in direction 0 is the
  one \<open>study_window\<close> opens.
\<close>

lemma show_card_queue: "queue (show_card s e) = queue s"
  by (simp add: show_card_def Let_def)

lemma deal_queue_queue:
  "queue (deal_queue shuffle rows s) =
     (if rows = [] then [] else zip rows (shuffle (replicate (length rows) 0)))"
proof (cases "rows = []")
  case True
  then show ?thesis by (simp add: deal_queue_def)
next
  case False
  then show ?thesis
    by (simp add: deal_queue_def Let_def show_card_queue split: list.splits)
qed

lemma prepare_queue_queue:
  "queue (prepare_queue shuffle include_all unit_filter s) = [] \<or>
   (\<exists>rows. queue (prepare_queue shuffle include_all unit_filter s) =
             zip rows (shuffle (replicate (length rows) 0)))"
  by (auto simp add: prepare_queue_def deal_queue_queue)

lemma prepare_queue_modes:
  assumes "\<And>ms. set (shuffle ms) \<subseteq> set ms"
  shows "snd ` set (queue (prepare_queue shuffle include_all unit_filter s)) \<subseteq> {0}"
proof -
  have z: "snd ` set (zip rows (shuffle (replicate n 0))) \<subseteq> {0}" for rows :: "'a card_row list" and n
  proof -
    have "snd ` set (zip rows (shuffle (replicate n 0))) \<subseteq> set (shuffle (replicate n 0))"
      by (auto dest: set_zip_rightD)
    also have "\<dots> \<subseteq> set (replicate n (0::int))" by (rule assms)
    also have "\<dots> \<subseteq> {0}" by auto
    finally show ?thesis .
  qed
  from prepare_queue_queue [of shuffle include_all unit_filter s] show ?thesis
  proof
    assume "queue (prepare_queue shuffle include_all unit_filter s) = []"
    then show ?thesis by simp
  next
    assume "\<exists>rows. queue (prepare_queue shuffle include_all unit_filter s) =
             zip rows (shuffle (replicate (length rows) 0))"
    then obtain rows where "queue (prepare_queue shuffle include_all unit_filter s) =
             zip rows (shuffle (replicate (length rows) 0))" by blast
    then show ?thesis using z [of rows "length rows"] by simp
  qed
qed

lemma recog_state_window:
  assumes "shuffle [0] = [0]"
  shows "study_window shuffle [demo_row] UnitNone include_all = recog_state"
  using assms
  by (simp add: study_window_def prepare_queue_def deal_queue_def fetch_rows_def
        normalize_unit_def list_due_cards_def list_cards_by_unit_def select_all_def
        recog_state_def open_study_def new_study_def show_card_def Let_def)

subsection \<open>The first judgment\<close>




subsection \<open>Judging again\<close>

text \<open>
  Claim C2, as the code has it: a second rating of a card is ignored, so that two
  ratings leave the state of one and count one attempt; a second answer on a recall
  card that is already judged leaves both totals as they are and judges again: the
  scheduler is called once more on the card as it was shown, its result is written, and
  a review event is appended.
\<close>

theorem rejudging:
  fixes lookup :: dictionary
  shows
  "submit_rating (submit_rating s clk q) clk' q' = submit_rating s clk q \<and>
   (\<not> rated s \<longrightarrow>
      session_total (submit_rating (submit_rating s clk q) clk' q') = session_total s + 1) \<and>
   (rated s \<and> current s = Some (row, 1) \<longrightarrow>
      (case check_answer F lookup s clk of
         Inl e \<Rightarrow>
           sm2_update F row (if judged lookup row (py_strip (input_text s)) then 4 else 1) = None
       | Inr s' \<Rightarrow>
           session_total s' = session_total s \<and> session_correct s' = session_correct s \<and>
           sm2_calls s' = sm2_calls s @
             [(row_id row, if judged lookup row (py_strip (input_text s)) then 4 else 1)] \<and>
           (\<exists>i r e. sm2_update F row
                       (if judged lookup row (py_strip (input_text s)) then 4 else 1) =
                       Some (i, r, e) \<and>
              db s' = update_card_review (db s) (row_id row) i r e (Some (now_iso clk)) None) \<and>
           length (reviews s') = length (reviews s) + (if row_id row = 0 then 0 else 1)))"
proof (intro conjI impI)
  show "submit_rating (submit_rating s clk q) clk' q' = submit_rating s clk q"
    using submit_rating_rated by (rule submit_rating_again)
  then show "session_total (submit_rating (submit_rating s clk q) clk' q') = session_total s + 1"
    if "\<not> rated s" using that submit_rating_first [of s clk q] by simp
next
  assume a: "rated s \<and> current s = Some (row, 1)"
  then have cur: "current s = Some (row, 1)" and r: "rated s" by simp_all
  show "case check_answer F lookup s clk of
         Inl e \<Rightarrow>
           sm2_update F row (if judged lookup row (py_strip (input_text s)) then 4 else 1) = None
       | Inr s' \<Rightarrow>
           session_total s' = session_total s \<and> session_correct s' = session_correct s \<and>
           sm2_calls s' = sm2_calls s @
             [(row_id row, if judged lookup row (py_strip (input_text s)) then 4 else 1)] \<and>
           (\<exists>i r e. sm2_update F row
                       (if judged lookup row (py_strip (input_text s)) then 4 else 1) =
                       Some (i, r, e) \<and>
              db s' = update_card_review (db s) (row_id row) i r e (Some (now_iso clk)) None) \<and>
           length (reviews s') = length (reviews s) + (if row_id row = 0 then 0 else 1)"
    using check_answer_fields [OF cur refl refl refl, where lookup = lookup and F = F and clk = clk] r
    by (cases "check_answer F lookup s clk") (simp_all add: insert_review_def)
qed

theorem rejudging_witness:
  "submit_rating (submit_rating recog_state demo_clock 4) demo_clock 1 =
     submit_rating recog_state demo_clock 4 \<and>
   session_total (submit_rating (submit_rating recog_state demo_clock 4) demo_clock 1) = 1 \<and>
   (case ui_run exact_ops demo_dict demo_clock recall_state [Type (asc ''x''), Confirm, Toggle] of
      Inl e \<Rightarrow> False
    | Inr s \<Rightarrow> rated s \<and> current s = Some (demo_row, 1) \<and> session_total s = 1 \<and>
        (case check_answer exact_ops demo_dict (s\<lparr>input_text := [0x306D, 0x3053]\<rparr>) demo_clock of
           Inl e \<Rightarrow> False
         | Inr s' \<Rightarrow> session_total s' = 1 \<and> session_correct s' = 0 \<and>
             sm2_calls s' = [(7, 1), (7, 4)] \<and> length (reviews s') = 2))"
  using rejudging [where s = recog_state and clk = demo_clock and q = 4 and clk' = demo_clock
      and q' = 1 and F = exact_ops and lookup = demo_dict and row = demo_row]
  by (simp add: study_eval)

text \<open>
  Claim C2 as stated asks for exactly one call of the scheduler and no further change.
  On the recognition card two ratings call it not once but never; on the recall card a
  wrong answer, then the answer hidden (which enables the input line again), then the
  right answer call it twice: the totals count once, a second review event is appended
  and the lapse stored by the first judgment is overwritten by a pass.
\<close>

theorem second_answer_reschedules:
  "(case ui_run exact_ops demo_dict demo_clock recog_state [Toggle, Rate 4, Rate 4] of
     Inl e \<Rightarrow> False
   | Inr s' \<Rightarrow> sm2_calls s' = [] \<and> session_total s' = 1 \<and> db s' = [demo_row]) \<and>
   (case ui_run exact_ops demo_dict demo_clock recall_state [Type (asc ''x''), Confirm] of
     Inl e \<Rightarrow> False
   | Inr s' \<Rightarrow> sm2_calls s' = [(7, 1)] \<and> map rv_quality (reviews s') = [1] \<and>
       session_total s' = 1 \<and> session_correct s' = 0 \<and>
       map (\<lambda>r. (row_interval r, row_repetition r, row_ef r)) (db s') = [(1, 0, 49 / 25)]) \<and>
   (case ui_run exact_ops demo_dict demo_clock recall_state
           [Type (asc ''x''), Confirm, Toggle, Type [0x306D, 0x3053], Confirm] of
     Inl e \<Rightarrow> False
   | Inr s' \<Rightarrow> sm2_calls s' = [(7, 1), (7, 4)] \<and> map rv_quality (reviews s') = [1, 4] \<and>
       session_total s' = 1 \<and> session_correct s' = 0 \<and>
       map (\<lambda>r. (row_interval r, row_repetition r, row_ef r)) (db s') = [(15, 3, 5 / 2)])"
  by (simp add: study_eval)

text \<open>
  Claim C1 on recognition cards: \<open>submit_rating\<close> neither calls the scheduler nor writes
  the card, in any state and for any quality; after a rating of 4 on the sample card
  only the totals and the review event have changed.
\<close>

theorem rating_skips_scheduler:
  "sm2_calls (submit_rating s clk q) = sm2_calls s \<and> db (submit_rating s clk q) = db s \<and>
   (case ui_run exact_ops demo_dict demo_clock recog_state [Toggle, Rate 4] of
      Inl e \<Rightarrow> False
    | Inr s' \<Rightarrow> sm2_calls s' = [] \<and> db s' = [demo_row] \<and> map rv_quality (reviews s') = [4] \<and>
        session_total s' = 1 \<and> session_correct s' = 1)"
  apply (intro conjI)
    apply (simp add: submit_rating_def record_review_def Let_def split: option.splits)
   apply (simp add: submit_rating_def record_review_def Let_def split: option.splits)
  apply (simp add: study_eval)
  done

section \<open>Round trip\<close>

subsection \<open>The tables\<close>

lemma rt_syllables_code:
  "rt_syllables =
    [([0x304D, 0x3083], [107, 121, 97]), ([0x304D, 0x3085], [107, 121, 117]), ([0x304D, 0x3087], [107, 121, 111]),
     ([0x304E, 0x3083], [103, 121, 97]), ([0x304E, 0x3085], [103, 121, 117]), ([0x304E, 0x3087], [103, 121, 111]),
     ([0x3057, 0x3083], [115, 104, 97]), ([0x3057, 0x3085], [115, 104, 117]), ([0x3057, 0x3087], [115, 104, 111]),
     ([0x3061, 0x3083], [99, 104, 97]), ([0x3061, 0x3085], [99, 104, 117]), ([0x3061, 0x3087], [99, 104, 111]),
     ([0x306B, 0x3083], [110, 121, 97]), ([0x306B, 0x3085], [110, 121, 117]), ([0x306B, 0x3087], [110, 121, 111]),
     ([0x3072, 0x3083], [104, 121, 97]), ([0x3072, 0x3085], [104, 121, 117]), ([0x3072, 0x3087], [104, 121, 111]),
     ([0x3073, 0x3083], [98, 121, 97]), ([0x3073, 0x3085], [98, 121, 117]), ([0x3073, 0x3087], [98, 121, 111]),
     ([0x3074, 0x3083], [112, 121, 97]), ([0x3074, 0x3085], [112, 121, 117]), ([0x3074, 0x3087], [112, 121, 111]),
     ([0x307F, 0x3083], [109, 121, 97]), ([0x307F, 0x3085], [109, 121, 117]), ([0x307F, 0x3087], [109, 121, 111]),
     ([0x308A, 0x3083], [114, 121, 97]), ([0x308A, 0x3085], [114, 121, 117]), ([0x308A, 0x3087], [114, 121, 111]),
     ([0x3042], [97]), ([0x3044], [105]), ([0x3046], [117]),
     ([0x3048], [101]), ([0x304A], [111]), ([0x304B], [107, 97]),
     ([0x304D], [107, 105]), ([0x304F], [107, 117]), ([0x3051], [107, 101]),
     ([0x3053], [107, 111]), ([0x304C], [103, 97]), ([0x304E], [103, 105]),
     ([0x3050], [103, 117]), ([0x3052], [103, 101]), ([0x3054], [103, 111]),
     ([0x3055], [115, 97]), ([0x3057], [115, 104, 105]), ([0x3059], [115, 117]),
     ([0x305B], [115, 101]), ([0x305D], [115, 111]), ([0x3056], [122, 97]),
     ([0x3058], [106, 105]), ([0x305A], [122, 117]), ([0x305C], [122, 101]),
     ([0x305E], [122, 111]), ([0x305F], [116, 97]), ([0x3061], [99, 104, 105]),
     ([0x3064], [116, 115, 117]), ([0x3066], [116, 101]), ([0x3068], [116, 111]),
     ([0x3060], [100, 97]), ([0x3067], [100, 101]), ([0x3069], [100, 111]),
     ([0x306A], [110, 97]), ([0x306B], [110, 105]), ([0x306C], [110, 117]),
     ([0x306D], [110, 101]), ([0x306E], [110, 111]), ([0x306F], [104, 97]),
     ([0x3072], [104, 105]), ([0x3075], [102, 117]), ([0x3078], [104, 101]),
     ([0x307B], [104, 111]), ([0x3070], [98, 97]), ([0x3073], [98, 105]),
     ([0x3076], [98, 117]), ([0x3079], [98, 101]), ([0x307C], [98, 111]),
     ([0x3071], [112, 97]), ([0x3074], [112, 105]), ([0x3077], [112, 117]),
     ([0x307A], [112, 101]), ([0x307D], [112, 111]), ([0x307E], [109, 97]),
     ([0x307F], [109, 105]), ([0x3080], [109, 117]), ([0x3081], [109, 101]),
     ([0x3082], [109, 111]), ([0x3084], [121, 97]), ([0x3086], [121, 117]),
     ([0x3088], [121, 111]), ([0x3089], [114, 97]), ([0x308A], [114, 105]),
     ([0x308B], [114, 117]), ([0x308C], [114, 101]), ([0x308D], [114, 111]),
     ([0x308F], [119, 97])]"
  by (simp add: rt_syllables_def r2k_digraph_code r2k_mono_code k2r_eval)

lemma rt_syllables_kana: "list_all kana_ok rt_syllables"
  by (simp add: rt_syllables_code k2r_digraph_lookup k2r_mono_lookup kana_ok_def hira_char_def
        small_second_def)

lemma rt_syllables_roma: "list_all roma_ok rt_syllables"
  by (simp add: rt_syllables_code r2k_digraph_lookup r2k_mono_lookup roma_ok_def plain_letter_def
        vowels_def asc_simps)

lemma keys_shape: "list_all (\<lambda>(key, k). cv_shape key \<and> nasal_key_ok key) (r2k_digraph @ r2k_mono)"
  by (simp add: r2k_digraph_code r2k_mono_code asc_simps vowels_def nasal_key_ok_def)

lemma reps_x: "list_all (\<lambda>(a, b). 0x78 \<in> set a) merge_reps"
  by (simp add: merge_reps_code)

subsection \<open>Kana to romaji on a word\<close>

lemma digraph_keys:
  "list_all (\<lambda>(k, r). case k of [a, b] \<Rightarrow> b \<in> set small_second | _ \<Rightarrow> False) k2r_digraph"
  by (simp add: k2r_digraph_code small_second_def)

lemma digraph_second: "map_of k2r_digraph [c, f] = Some t \<Longrightarrow> f \<in> set small_second"
  using digraph_keys map_of_SomeD [of k2r_digraph "[c, f]" t]
  by (auto simp add: list_all_iff)

lemma nasal_kana_ok: "kana_ok NASAL"
  by (simp add: NASAL_def kana_ok_def hira_char_def small_second_def k2r_mono_lookup asc_simps)

lemma unit_kana_ok: "u \<in> set rt_syllables \<or> u = NASAL \<Longrightarrow> kana_ok u"
  using rt_syllables_kana nasal_kana_ok by (auto simp add: list_all_iff)

lemma tokens_unit:
  assumes ok: "kana_ok (k, r)" and rest: "rest = [] \<or> hd rest \<notin> set small_second"
  shows "k2r_tokens False (k @ rest) = r # k2r_tokens False rest"
proof -
  from ok consider
      (mono) c where "k = [c]" "hira_char c" "map_of k2r_mono c = Some r"
    | (di) c1 c2 where "k = [c1, c2]" "hira_char c1" "map_of k2r_digraph [c1, c2] = Some r"
    by (auto simp add: kana_ok_def split: list.splits)
  then show ?thesis
  proof cases
    case mono
    then have ns: "c \<noteq> SOKUON" by (simp add: hira_char_def SOKUON_def)
    show ?thesis
    proof (cases rest)
      case Nil
      then show ?thesis using mono ns by (simp add: geminate_False)
    next
      case (Cons f rest')
      then have "f \<notin> set small_second" using rest by simp
      then have "map_of k2r_digraph [c, f] = None"
        using digraph_second [of c f] by (cases "map_of k2r_digraph [c, f]") auto
      then show ?thesis using mono ns Cons by (simp add: geminate_False)
    qed
  next
    case di
    then have ns: "c1 \<noteq> SOKUON" by (simp add: hira_char_def SOKUON_def)
    then show ?thesis using di by (simp add: geminate_False)
  qed
qed

lemma kana_ok_head: "kana_ok (k, r) \<Longrightarrow> k \<noteq> [] \<and> hd k \<notin> set small_second"
  by (auto simp add: kana_ok_def hira_char_def split: list.splits)

lemma kana_ok_hira: "kana_ok (k, r) \<Longrightarrow> c \<in> set k \<Longrightarrow> c < 0x30A1"
  by (auto simp add: kana_ok_def hira_char_def split: list.splits)

lemma word_units: "rt_word us \<Longrightarrow> u \<in> set us \<Longrightarrow> u \<in> set rt_syllables \<or> u = NASAL"
  by (induction us) auto

lemma word_head:
  "rt_word us \<Longrightarrow> concat (map fst us) = [] \<or> hd (concat (map fst us)) \<notin> set small_second"
proof (cases us)
  case Nil
  then show ?thesis by simp
next
  case (Cons u us')
  assume "rt_word us"
  then have "kana_ok u" using Cons unit_kana_ok [of u] by auto
  then have "fst u \<noteq> [] \<and> hd (fst u) \<notin> set small_second"
    using kana_ok_head [of "fst u" "snd u"] by simp
  then show ?thesis using Cons by simp
qed

lemma word_tokens: "rt_word us \<Longrightarrow> k2r_tokens False (concat (map fst us)) = map snd us"
proof (induction us)
  case Nil
  then show ?case by simp
next
  case (Cons u us)
  then have w: "rt_word us" by simp
  have "kana_ok (fst u, snd u)" using Cons.prems unit_kana_ok [of u] by auto
  then have "k2r_tokens False (fst u @ concat (map fst us)) =
               snd u # k2r_tokens False (concat (map fst us))"
    using tokens_unit word_head [OF w] by blast
  then show ?case using Cons.IH [OF w] by simp
qed

lemma word_kata: "rt_word us \<Longrightarrow> kata_to_hira (concat (map fst us)) = concat (map fst us)"
proof -
  assume w: "rt_word us"
  have lt: "c < 0x30A1" if "c \<in> set (concat (map fst us))" for c
  proof -
    from that obtain u where u: "u \<in> set us" "c \<in> set (fst u)" by auto
    then have "kana_ok (fst u, snd u)" using word_units [OF w] unit_kana_ok [of u] by auto
    then show ?thesis using u kana_ok_hira by blast
  qed
  show ?thesis unfolding kata_to_hira_def
  proof (rule map_idI)
    fix c assume "c \<in> set (concat (map fst us))"
    then have "c < 0x30A1" by (rule lt)
    then show "(if 0x30A1 \<le> c \<and> c \<le> 0x30F6 then c - 0x60 else c) = c" by simp
  qed
qed

lemma join_plain: "asc ''-'' \<notin> set ts \<Longrightarrow> k2r_join v ts = concat ts"
  by (induction ts arbitrary: v) auto

lemma nasal_roma: "list_all plain_letter (snd NASAL) \<and> snd NASAL \<noteq> []"
  by (simp add: NASAL_def plain_letter_def asc_simps)

lemma cv_shape_nonempty: "cv_shape r \<Longrightarrow> r \<noteq> []"
  by (cases r) auto

lemma unit_roma_plain:
  "u \<in> set rt_syllables \<or> u = NASAL \<Longrightarrow> list_all plain_letter (snd u) \<and> snd u \<noteq> []"
  using rt_syllables_roma nasal_roma cv_shape_nonempty
  by (auto simp add: list_all_iff roma_ok_def)

lemma word_plain: "rt_word us \<Longrightarrow> list_all plain_letter (concat (map snd us))"
proof -
  assume w: "rt_word us"
  have "plain_letter c" if "c \<in> set (concat (map snd us))" for c
  proof -
    from that obtain u where u: "u \<in> set us" "c \<in> set (snd u)" by auto
    then have "list_all plain_letter (snd u)"
      using word_units [OF w] unit_roma_plain [of u] by auto
    then show ?thesis using u by (simp add: list_all_iff)
  qed
  then show ?thesis by (simp add: list_all_iff)
qed

lemma word_no_dash: "rt_word us \<Longrightarrow> asc ''-'' \<notin> set (map snd us)"
proof
  assume w: "rt_word us" and "asc ''-'' \<in> set (map snd us)"
  then obtain u where "u \<in> set us" "snd u = asc ''-''" by auto
  then have "list_all plain_letter (asc ''-'')"
    using word_units [OF w] unit_roma_plain [of u] by auto
  then show False by (simp add: plain_letter_def asc_simps)
qed

lemma word_romaji: "rt_word us \<Longrightarrow> kana_to_romaji (concat (map fst us)) = concat (map snd us)"
proof (cases us)
  case Nil
  then show ?thesis by (simp add: kana_to_romaji_def)
next
  case (Cons u us')
  assume w: "rt_word us"
  have "kana_ok (fst u, snd u)" using w Cons unit_kana_ok [of u] by auto
  then have "fst u \<noteq> []" using kana_ok_head by blast
  then have ne: "concat (map fst us) \<noteq> []" using Cons by simp
  have "k2r_join [] (map snd us) = concat (map snd us)"
    using join_plain word_no_dash [OF w] by blast
  then show ?thesis
    using ne by (simp only: kana_to_romaji_def word_kata [OF w] word_tokens [OF w] if_False)
qed

subsection \<open>The text handed to the parser\<close>

lemma dropWhile_none: "(\<And>c. c \<in> set s \<Longrightarrow> \<not> P c) \<Longrightarrow> dropWhile P s = s"
  by (cases s) auto

lemma plain_not_space: "plain_letter c \<Longrightarrow> \<not> py_isspace c"
  by (auto simp add: plain_letter_def py_isspace_def)

lemma strip_plain: "list_all plain_letter s \<Longrightarrow> py_strip s = s"
proof -
  assume "list_all plain_letter s"
  then have ns: "\<And>c. c \<in> set s \<Longrightarrow> \<not> py_isspace c"
    using plain_not_space by (simp add: list_all_iff)
  then have 1: "dropWhile py_isspace s = s" by (rule dropWhile_none)
  have 2: "dropWhile py_isspace (rev s) = rev s" using ns by (intro dropWhile_none) simp
  show ?thesis by (simp add: py_strip_def 1 2)
qed

lemma lower_plain: "list_all plain_letter s \<Longrightarrow> py_lower ulower s = s"
proof -
  assume p: "list_all plain_letter s"
  then have "list_all (\<lambda>c. c < 0x80) s"
    by (auto simp add: list_all_iff plain_letter_def)
  moreover have "map py_lower_char s = s"
    using p by (intro map_idI) (auto simp add: list_all_iff plain_letter_def py_lower_char_def)
  ultimately show ?thesis by (simp add: py_lower_def)
qed

lemma replace_absent: "c \<in> set a \<Longrightarrow> c \<notin> set s \<Longrightarrow> py_replace a b s = s"
proof (induction s)
  case Nil
  then show ?case by simp
next
  case (Cons x xs)
  have "\<not> starts_with a (x # xs)"
  proof
    assume "starts_with a (x # xs)"
    then have "set a \<subseteq> set (x # xs)"
      unfolding starts_with_def by (metis set_take_subset)
    then show False using Cons.prems by auto
  qed
  then show ?case using Cons by simp
qed

lemma fold_replace_absent:
  "list_all (\<lambda>(a, b). c \<in> set a) reps \<Longrightarrow> c \<notin> set s \<Longrightarrow>
     fold (\<lambda>(a, b) d. py_replace a b d) reps s = s"
  by (induction reps) (auto simp add: replace_absent)

lemma merge_plain: "list_all plain_letter s \<Longrightarrow> merge_split_x s = s"
proof -
  assume "list_all plain_letter s"
  then have "0x78 \<notin> set s" by (auto simp add: list_all_iff plain_letter_def)
  then show ?thesis unfolding merge_split_x_def using reps_x by (rule fold_replace_absent [rotated])
qed

subsection \<open>Romaji to kana on a word\<close>

lemma shape_unique: "cv_shape a \<Longrightarrow> cv_shape b \<Longrightarrow> a @ x = b @ y \<Longrightarrow> a = b"
proof (induction a arbitrary: b)
  case Nil
  then show ?case by simp
next
  case (Cons c a)
  then obtain d b' where b: "b = d # b'" by (cases b) auto
  with Cons.prems have cd: "c = d" and rest: "a @ x = b' @ y" by auto
  show ?case
  proof (cases "c \<in> set vowels")
    case True
    then show ?thesis using Cons.prems b cd by simp
  next
    case False
    then have "cv_shape a" "cv_shape b'" using Cons.prems b cd by auto
    then have "a = b'" using Cons.IH rest by blast
    then show ?thesis using b cd by simp
  qed
qed

lemma key_facts:
  assumes "in_table key r2k_digraph \<or> in_table key r2k_mono"
  shows "cv_shape key \<and> nasal_key_ok key"
proof -
  from assms obtain v where "(key, v) \<in> set (r2k_digraph @ r2k_mono)"
    unfolding in_table_def by (auto dest: map_of_SomeD)
  then show ?thesis using keys_shape by (auto simp add: list_all_iff)
qed

lemma take_key:
  assumes r: "cv_shape r"
    and key: "in_table (take n (r @ rest)) r2k_digraph \<or> in_table (take n (r @ rest)) r2k_mono"
  shows "take n (r @ rest) = r \<and> drop n (r @ rest) = rest"
proof -
  have "cv_shape (take n (r @ rest))" using key_facts [OF key] by simp
  moreover have "take n (r @ rest) @ drop n (r @ rest) = r @ rest"
    by (rule append_take_drop_id)
  ultimately have 1: "take n (r @ rest) = r" using r shape_unique by blast
  then have "r @ drop n (r @ rest) = r @ rest" by (metis append_take_drop_id)
  then show ?thesis using 1 by simp
qed

lemma emit_Some: "emit (Some k) (Some out) = Some (k @ out)" "emit (Some k) None = None"
  by (simp_all add: emit_def)

lemma r2k_loop_step:
  assumes "s \<noteq> []"
  shows "r2k_loop s =
     (if take 1 s = asc ''x'' then
        (if in_table (take 4 s) xmap then emit (map_of xmap (take 4 s)) (r2k_loop (drop 4 s))
         else if in_table (take 3 s) xmap then emit (map_of xmap (take 3 s)) (r2k_loop (drop 3 s))
         else if in_table (take 2 s) xmap then emit (map_of xmap (take 2 s)) (r2k_loop (drop 2 s))
         else None)
      else if in_table (take 3 s) r2k_digraph then
        emit (map_of r2k_digraph (take 3 s)) (r2k_loop (drop 3 s))
      else if in_table (take 3 s) r2k_mono then
        emit (map_of r2k_mono (take 3 s)) (r2k_loop (drop 3 s))
      else if in_table (take 2 s) r2k_mono then
        emit (map_of r2k_mono (take 2 s)) (r2k_loop (drop 2 s))
      else if in_table (take 1 s) r2k_mono then
        emit (map_of r2k_mono (take 1 s)) (r2k_loop (drop 1 s))
      else if take 1 s = asc ''n'' then
        (if take 1 (tl s) = [] \<or>
            (\<not> (\<exists>v \<in> set vowels. take 1 (tl s) = [v]) \<and> take 1 (tl s) \<noteq> asc ''y'')
         then emit (Some [0x3093]) (r2k_loop (drop 1 s))
         else None)
      else None)"
proof -
  from assms obtain c cs where s: "s = c # cs" by (cases s) auto
  show ?thesis unfolding s by (simp only: r2k_loop.simps Let_def list.sel)
qed

lemma loop_unit:
  assumes ok: "roma_ok (k, r)"
  shows "r2k_loop (r @ rest) = emit (Some k) (r2k_loop rest)"
proof -
  from ok have shape: "cv_shape r" and plain: "list_all plain_letter r" and len: "length r \<le> 3"
    and lk: "(length r = 3 \<and> map_of r2k_digraph r = Some k) \<or>
             (map_of r2k_digraph r = None \<and> map_of r2k_mono r = Some k)"
    by (simp_all add: roma_ok_def)
  from shape obtain c cs where r: "r = c # cs" by (cases r) auto
  define s where "s = r @ rest"
  have s: "s = c # (cs @ rest)" by (simp add: s_def r)
  have nx: "take 1 s \<noteq> asc ''x''"
    using plain by (simp add: s r plain_letter_def asc_simps)
  have key: "take n s = r \<and> drop n s = rest"
    if "in_table (take n s) r2k_digraph \<or> in_table (take n s) r2k_mono" for n
    using take_key [OF shape] that unfolding s_def by blast
  have self: "take (length r) s = r" by (simp add: s_def)
  show ?thesis
  proof (cases "map_of r2k_digraph r = Some k \<and> length r = 3")
    case True
    then have t3: "take 3 s = r" using self by simp
    then have d3: "drop 3 s = rest" using True by (simp add: s_def)
    have "in_table (take 3 s) r2k_digraph" using True t3 by (simp add: in_table_def)
    moreover have "s \<noteq> []" by (simp add: s)
    ultimately show ?thesis
      using nx t3 d3 True unfolding s_def [symmetric]
      by (simp add: r2k_loop_step)
  next
    case False
    then have nd: "map_of r2k_digraph r = None" and m: "map_of r2k_mono r = Some k"
      using lk by auto
    have no_di: "\<not> in_table (take 3 s) r2k_digraph"
    proof
      assume a: "in_table (take 3 s) r2k_digraph"
      then have "take 3 s = r" using key by blast
      then show False using a nd by (simp add: in_table_def)
    qed
    have hit: "in_table (take n s) r2k_mono \<Longrightarrow>
                 emit (map_of r2k_mono (take n s)) (r2k_loop (drop n s)) =
                 emit (Some k) (r2k_loop rest)" for n
      using key [of n] m by simp
    have some: "in_table (take 3 s) r2k_mono \<or> in_table (take 2 s) r2k_mono \<or>
                in_table (take 1 s) r2k_mono"
    proof -
      have "in_table (take (length r) s) r2k_mono" using self m by (simp add: in_table_def)
      moreover have "length r = 1 \<or> length r = 2 \<or> length r = 3"
        using len r by (simp add: le_Suc_eq numeral_3_eq_3)
      ultimately show ?thesis by auto
    qed
    have "r2k_loop s =
            (if in_table (take 3 s) r2k_mono then
               emit (map_of r2k_mono (take 3 s)) (r2k_loop (drop 3 s))
             else if in_table (take 2 s) r2k_mono then
               emit (map_of r2k_mono (take 2 s)) (r2k_loop (drop 2 s))
             else emit (map_of r2k_mono (take 1 s)) (r2k_loop (drop 1 s)))"
      using nx no_di some r2k_loop_step [of s] by (auto simp add: s)
    then show ?thesis using hit some unfolding s_def by auto
  qed
qed

lemma loop_nasal:
  assumes rest: "rest = [] \<or> (hd rest \<notin> set vowels \<and> hd rest \<noteq> 0x79)"
  shows "r2k_loop (0x6E # rest) = emit (Some [0x3093]) (r2k_loop rest)"
proof -
  define s where "s = 0x6E # rest"
  have no_key: "\<not> (in_table (take n s) r2k_digraph \<or> in_table (take n s) r2k_mono)" for n
  proof
    assume "in_table (take n s) r2k_digraph \<or> in_table (take n s) r2k_mono"
    then have f: "cv_shape (take n s)" "nasal_key_ok (take n s)" using key_facts by blast+
    then obtain m where n: "n = Suc m" by (cases n) auto
    define t where "t = take m rest"
    have key: "take n s = 0x6E # t" by (simp add: n s_def t_def)
    show False
    proof (cases t)
      case Nil
      then show ?thesis using f(2) key by (simp add: nasal_key_ok_def)
    next
      case (Cons d ds)
      then have "rest \<noteq> []" unfolding t_def by auto
      moreover have "d = hd rest"
        using Cons unfolding t_def by (cases rest; cases m) auto
      moreover have "d \<in> set vowels \<or> d = 0x79"
        using f(2) key Cons by (simp add: nasal_key_ok_def)
      ultimately show ?thesis using rest by auto
    qed
  qed
  have nx: "take 1 s \<noteq> asc ''x''" and isn: "take 1 s = asc ''n''"
    by (simp_all add: s_def asc_simps)
  have nxt: "take 1 (tl s) = [] \<or>
             (\<not> (\<exists>v \<in> set vowels. take 1 (tl s) = [v]) \<and> take 1 (tl s) \<noteq> asc ''y'')"
    using rest by (cases rest) (auto simp add: s_def asc_simps)
  have sne: "s \<noteq> []" by (simp add: s_def)
  have "r2k_loop s = emit (Some [0x3093]) (r2k_loop (drop 1 s))"
    using no_key [of 3] no_key [of 2] no_key [of 1] nx isn nxt
    by (simp add: r2k_loop_step [OF sne])
  then show ?thesis by (simp add: s_def)
qed

lemma unit_roma_ok: "u \<in> set rt_syllables \<Longrightarrow> roma_ok u"
  using rt_syllables_roma by (simp add: list_all_iff)

lemma word_tail: "rt_word (u # us) \<Longrightarrow> rt_word us"
  by simp

lemma word_loop: "rt_word us \<Longrightarrow> r2k_loop (concat (map snd us)) = Some (concat (map fst us))"
proof (induction us)
  case Nil
  then show ?case by (simp add: r2k_loop.simps)
next
  case (Cons u us)
  then have w: "rt_word us" by simp
  note IH = Cons.IH [OF w]
  show ?case
  proof (cases "u \<in> set rt_syllables")
    case True
    then have "roma_ok (fst u, snd u)" using unit_roma_ok by simp
    then have "r2k_loop (snd u @ concat (map snd us)) =
                 emit (Some (fst u)) (r2k_loop (concat (map snd us)))"
      by (rule loop_unit)
    then show ?thesis using IH by (simp add: emit_Some)
  next
    case False
    then have u: "u = NASAL"
      and nxt: "case us of [] \<Rightarrow> True
                | (k, r) # _ \<Rightarrow> (case r of [] \<Rightarrow> True | c # _ \<Rightarrow> c \<notin> set vowels \<and> c \<noteq> 0x79)"
      using Cons.prems by auto
    have "concat (map snd us) = [] \<or>
          (hd (concat (map snd us)) \<notin> set vowels \<and> hd (concat (map snd us)) \<noteq> 0x79)"
    proof (cases us)
      case Nil
      then show ?thesis by simp
    next
      case (Cons u' us')
      then have "snd u' \<noteq> []"
        using w unit_roma_plain [of u'] by auto
      then show ?thesis using nxt Cons by (cases u'; cases "snd u'") auto
    qed
    then have "r2k_loop (0x6E # concat (map snd us)) =
                 emit (Some [0x3093]) (r2k_loop (concat (map snd us)))"
      by (rule loop_nasal)
    then show ?thesis using IH u by (simp add: NASAL_def asc_simps emit_Some)
  qed
qed

lemma word_nonempty: "rt_word us \<Longrightarrow> us \<noteq> [] \<Longrightarrow> concat (map snd us) \<noteq> []"
proof -
  assume w: "rt_word us" and "us \<noteq> []"
  then obtain u us' where us: "us = u # us'" by (cases us) auto
  then have "snd u \<noteq> []" using w unit_roma_plain [of u] by auto
  then show ?thesis using us by simp
qed

text \<open>
  Claim C3, as the code has it: for every non-empty word of syllables that the parser's
  tables hold and the romaniser writes with the parser's key, with the syllabic n only at
  the end or before a consonant other than \<open>y\<close>, \<open>romaji_to_kana\<close> of \<open>kana_to_romaji\<close> of
  the word returns the word as its hiragana (and its katakana as the second component).
\<close>

theorem round_trip_syllables:
  assumes "rt_word us" and "us \<noteq> []"
  shows "romaji_to_kana ulower (kana_to_romaji (concat (map fst us))) =
           Some (concat (map fst us), hira_to_kata (concat (map fst us)))"
proof -
  let ?r = "concat (map snd us)"
  have p: "list_all plain_letter ?r" using assms(1) by (rule word_plain)
  have "merge_split_x (py_lower ulower (py_strip ?r)) = ?r"
    by (simp add: strip_plain [OF p] lower_plain [OF p] merge_plain [OF p])
  then show ?thesis
    using word_nonempty [OF assms] word_loop [OF assms(1)]
    by (simp add: word_romaji [OF assms(1)] romaji_to_kana_def)
qed

theorem round_trip_syllables_witness:
  "romaji_to_kana ascii_lower (kana_to_romaji [0x306B, 0x307B, 0x3093, 0x3054]) =
     Some ([0x306B, 0x307B, 0x3093, 0x3054], [0x30CB, 0x30DB, 0x30F3, 0x30B4]) \<and>
   kana_to_romaji [0x306B, 0x307B, 0x3093, 0x3054] = asc ''nihongo''"
  using round_trip_syllables [where ulower = ascii_lower and
      us = "[([0x306B], asc ''ni''), ([0x307B], asc ''ho''), NASAL, ([0x3054], asc ''go'')]"]
  by (simp add: rt_syllables_code NASAL_def asc_simps vowels_def hira_to_kata_def k2r_eval)

text \<open>
  Claim C3 as stated fails on mapped syllables: the particle \<open>wo\<close> is written \<open>o\<close> and
  comes back as the vowel; the doubled consonant that a small tsu produces is not
  parsed at all; the empty string gives no result.
\<close>

theorem round_trip_fails:
  "romaji_to_kana ascii_lower (kana_to_romaji [0x3092]) = Some ([0x304A], [0x30AA]) \<and>
   romaji_to_kana ascii_lower (kana_to_romaji [0x304C, 0x3063, 0x3053, 0x3046]) = None \<and>
   romaji_to_kana ascii_lower (kana_to_romaji []) = None"
  by (simp add: k2r_eval r2k_eval)

end
